theory Spec2Isabelle
  imports Main
begin

section \<open>Strings\<close>

text \<open>
  A Python \<^verbatim>\<open>str\<close> is modelled as a \<^typ>\<open>string\<close> in which every \<^typ>\<open>char\<close> stands
  for one code point from U+0000 to U+00FF (the Latin-1 range): the character with code
  \<open>n\<close> is the code point \<open>n\<close>. The character tables below (\<^verbatim>\<open>\d\<close>, \<^verbatim>\<open>\w\<close>,
  \<^verbatim>\<open>str.isdigit\<close>, \<^verbatim>\<open>str.lower\<close>) are those of CPython 3.11 restricted to that range.
  Code points above U+00FF are outside the model.
\<close>

definition ascii_digits :: string where
  "ascii_digits = ''0123456789''"

definition ascii_letters :: string where
  "ascii_letters = ''abcdefghijklmnopqrstuvwxyzABCDEFGHIJKLMNOPQRSTUVWXYZ''"

definition ascii_uppercase :: string where
  "ascii_uppercase = ''ABCDEFGHIJKLMNOPQRSTUVWXYZ''"

definition code_point :: "char \<Rightarrow> nat" where
  "code_point c = of_char c"

text \<open>\<^verbatim>\<open>\d\<close> of a str pattern: the decimal digits (category Nd); below U+0100 only 0-9.\<close>

definition re_digit :: "char \<Rightarrow> bool" where
  "re_digit c = (c \<in> set ascii_digits)"

text \<open>
  \<^verbatim>\<open>\w\<close> of a str pattern: alphanumeric code points and the underscore. Below U+0100
  these are the ASCII letters and digits, U+00AA, U+00B2, U+00B3, U+00B5, U+00B9, U+00BA,
  U+00BC to U+00BE, and U+00C0 to U+00FF without U+00D7 and U+00F7.
\<close>

definition re_word :: "char \<Rightarrow> bool" where
  "re_word c =
     (c \<in> set ascii_letters \<or> c \<in> set ascii_digits \<or> c = CHR ''_'' \<or>
      code_point c \<in> {0xAA, 0xB2, 0xB3, 0xB5, 0xB9, 0xBA, 0xBC, 0xBD, 0xBE} \<or>
      (0xC0 \<le> code_point c \<and> code_point c \<noteq> 0xD7 \<and> code_point c \<noteq> 0xF7))"

text \<open>\<^verbatim>\<open>c.isdigit()\<close> for one character: 0-9 and the superscripts U+00B2, U+00B3, U+00B9.\<close>

definition chr_isdigit :: "char \<Rightarrow> bool" where
  "chr_isdigit c = (c \<in> set ascii_digits \<or> code_point c \<in> {0xB2, 0xB3, 0xB9})"

text \<open>\<^verbatim>\<open>s.isdigit()\<close>: at least one character, and all of them digits.\<close>

definition str_isdigit :: "string \<Rightarrow> bool" where
  "str_isdigit s = (s \<noteq> [] \<and> list_all chr_isdigit s)"

text \<open>
  \<^verbatim>\<open>c.lower()\<close>: A-Z, and U+00C0 to U+00DE without U+00D7, move up by 32; every other
  code point below U+0100 is unchanged.
\<close>

definition chr_lower :: "char \<Rightarrow> char" where
  "chr_lower c =
     (if c \<in> set ascii_uppercase \<or>
         (0xC0 \<le> code_point c \<and> code_point c \<le> 0xDE \<and> code_point c \<noteq> 0xD7)
      then char_of (code_point c + 32) else c)"

definition str_lower :: "string \<Rightarrow> string" where
  "str_lower s = map chr_lower s"

definition str_startswith :: "string \<Rightarrow> string \<Rightarrow> bool" where
  "str_startswith s p = (take (length p) s = p)"

text \<open>\<^verbatim>\<open>s.strip(chars)\<close>: drop leading and trailing characters that occur in \<open>chars\<close>.\<close>

definition str_lstrip :: "string \<Rightarrow> string \<Rightarrow> string" where
  "str_lstrip s chars = dropWhile (\<lambda>c. c \<in> set chars) s"

definition str_strip :: "string \<Rightarrow> string \<Rightarrow> string" where
  "str_strip s chars = rev (str_lstrip (rev (str_lstrip s chars)) chars)"

text \<open>
  \<^verbatim>\<open>s.partition(c)\<close> for a one-character separator: the text before the first \<open>c\<close>,
  whether \<open>c\<close> occurs, and the text after it.
\<close>

definition str_partition :: "string \<Rightarrow> char \<Rightarrow> string \<times> bool \<times> string" where
  "str_partition s c =
     (takeWhile (\<lambda>x. x \<noteq> c) s, c \<in> set s, drop 1 (dropWhile (\<lambda>x. x \<noteq> c) s))"

text \<open>
  \<^verbatim>\<open>s.rpartition(c)\<close>: split at the last \<open>c\<close>; when \<open>c\<close> does not occur the third
  component is all of \<open>s\<close> and the first is empty.
\<close>

definition str_rpartition :: "string \<Rightarrow> char \<Rightarrow> string \<times> bool \<times> string" where
  "str_rpartition s c =
     (rev (drop 1 (dropWhile (\<lambda>x. x \<noteq> c) (rev s))), c \<in> set s,
      rev (takeWhile (\<lambda>x. x \<noteq> c) (rev s)))"

text \<open>\<^verbatim>\<open>s.split(c)\<close> for a one-character separator; the result is never empty.\<close>

fun str_split :: "string \<Rightarrow> char \<Rightarrow> string list" where
  "str_split [] c = [[]]"
| "str_split (x # xs) c =
     (if x = c then [] # str_split xs c
      else (case str_split xs c of [] \<Rightarrow> [[x]] | p # ps \<Rightarrow> (x # p) # ps))"

definition str_join :: "string \<Rightarrow> string list \<Rightarrow> string" where
  "str_join sep xs = concat (case xs of [] \<Rightarrow> [] | y # ys \<Rightarrow> y # map (\<lambda>z. sep @ z) ys)"

section \<open>Regular expressions\<close>

text \<open>
  The patterns of the program use character classes, concatenation, alternation, optional
  parts and greedy repetition of a character class. \<open>rmatch r s\<close> lists, in the order in
  which the backtracking matcher of \<^verbatim>\<open>re\<close> tries them, the remainders of \<open>s\<close> after
  each way of matching \<open>r\<close> at the start of \<open>s\<close>.
\<close>

datatype rx =
    Eps
  | Cls "char \<Rightarrow> bool"
  | Seq rx rx
  | Alt rx rx
  | Opt rx
  | Plus "char \<Rightarrow> bool"
  | Rep nat nat "char \<Rightarrow> bool"

text \<open>
  Greedy repetition of a character class: the remainders after one or more characters of
  the class (\<open>many\<close>), and after at least \<open>lo\<close> and at most \<open>hi\<close> of them (\<open>rep\<close>), the
  longest match first.
\<close>

primrec many :: "(char \<Rightarrow> bool) \<Rightarrow> string \<Rightarrow> string list" where
  "many p [] = []"
| "many p (c # cs) = (if p c then many p cs @ [cs] else [])"

primrec rep :: "(char \<Rightarrow> bool) \<Rightarrow> nat \<Rightarrow> nat \<Rightarrow> string \<Rightarrow> string list" where
  "rep p lo hi [] = (if lo = 0 then [[]] else [])"
| "rep p lo hi (c # cs) =
     (if 0 < hi \<and> p c then rep p (lo - 1) (hi - 1) cs else []) @
     (if lo = 0 then [c # cs] else [])"

fun rmatch :: "rx \<Rightarrow> string \<Rightarrow> string list" where
  "rmatch Eps s = [s]"
| "rmatch (Cls p) s = (case s of [] \<Rightarrow> [] | c # cs \<Rightarrow> if p c then [cs] else [])"
| "rmatch (Seq a b) s = concat (map (rmatch b) (rmatch a s))"
| "rmatch (Alt a b) s = rmatch a s @ rmatch b s"
| "rmatch (Opt a) s = rmatch a s @ [s]"
| "rmatch (Plus p) s = many p s"
| "rmatch (Rep lo hi p) s = rep p lo hi s"

definition Chr :: "char \<Rightarrow> rx" where
  "Chr c = Cls (\<lambda>x. x = c)"

text \<open>A literal character under \<^verbatim>\<open>re.IGNORECASE\<close>.\<close>

definition ChrI :: "char \<Rightarrow> rx" where
  "ChrI c = Cls (\<lambda>x. chr_lower x = chr_lower c)"

primrec Lit :: "string \<Rightarrow> rx" where
  "Lit [] = Eps"
| "Lit (c # cs) = Seq (Chr c) (Lit cs)"

primrec LitI :: "string \<Rightarrow> rx" where
  "LitI [] = Eps"
| "LitI (c # cs) = Seq (ChrI c) (LitI cs)"

primrec Times :: "nat \<Rightarrow> rx \<Rightarrow> rx" where
  "Times 0 r = Eps"
| "Times (Suc n) r = Seq r (Times n r)"

text \<open>
  \<^verbatim>\<open>$\<close> without \<^verbatim>\<open>re.MULTILINE\<close> holds at the end of the string and just before a
  newline that ends the string.
\<close>

definition at_dollar :: "string \<Rightarrow> bool" where
  "at_dollar r = (r = [] \<or> r = [CHR 0x0A])"

text \<open>\<^verbatim>\<open>re.match\<close> of a pattern \<^verbatim>\<open>^r\<close>, and of a pattern \<^verbatim>\<open>^r$\<close>.\<close>

definition re_match_prefix :: "rx \<Rightarrow> string \<Rightarrow> bool" where
  "re_match_prefix r s = (rmatch r s \<noteq> [])"

definition re_match_dollar :: "rx \<Rightarrow> string \<Rightarrow> bool" where
  "re_match_dollar r s = list_ex at_dollar (rmatch r s)"

section \<open>Patterns of the wrapper\<close>

text \<open>\<^verbatim>\<open>URL_PATTERN = re.compile(r"^(https?|ftp|ftps)://", re.IGNORECASE)\<close>\<close>

definition URL_PATTERN :: rx where
  "URL_PATTERN =
     Seq (Alt (Seq (LitI ''http'') (Opt (ChrI CHR ''s''))) (Alt (LitI ''ftp'') (LitI ''ftps'')))
         (Lit ''://'')"

definition port_suffix :: rx where
  "port_suffix = Opt (Seq (Chr CHR '':'') (Plus re_digit))"

text \<open>\<^verbatim>\<open>IPV4_PATTERN = re.compile(r"^(\d{1,3}\.){3}\d{1,3}(:\d+)?$")\<close>\<close>

definition IPV4_PATTERN :: rx where
  "IPV4_PATTERN =
     Seq (Times 3 (Seq (Rep 1 3 re_digit) (Chr CHR ''.'')))
         (Seq (Rep 1 3 re_digit) port_suffix)"

text \<open>\<^verbatim>\<open>IPV6_PATTERN = re.compile(r"^\[?([0-9a-fA-F:]+)\]?(:\d+)?$")\<close>\<close>

definition IPV6_PATTERN :: rx where
  "IPV6_PATTERN =
     Seq (Opt (Chr CHR ''[''))
         (Seq (Plus (\<lambda>c. c \<in> set ''0123456789abcdefABCDEF:''))
              (Seq (Opt (Chr CHR '']'')) port_suffix))"

text \<open>\<^verbatim>\<open>HOST_PORT_PATTERN = re.compile(r"^([a-zA-Z0-9.-]+)(:\d+)?$")\<close>\<close>

definition HOST_PORT_PATTERN :: rx where
  "HOST_PORT_PATTERN =
     Seq (Plus (\<lambda>c. c \<in> set ascii_letters \<or> c \<in> set ascii_digits \<or> c \<in> set ''.-''))
         port_suffix"

section \<open>The standard library's \<^verbatim>\<open>ipaddress\<close> parser\<close>

text \<open>
  \<^verbatim>\<open>ipaddress.ip_address\<close> as in CPython 3.11, for a string argument. A raised
  \<^verbatim>\<open>AddressValueError\<close> or \<^verbatim>\<open>ValueError\<close> is the result \<open>None\<close>.
\<close>

datatype ip_addr = IPv4Address nat | IPv6Address nat

definition digit_value :: "char \<Rightarrow> nat" where
  "digit_value c =
     (if c \<in> set ascii_digits then code_point c - 48
      else if c \<in> set ''abcdef'' then code_point c - 87
      else code_point c - 55)"

text \<open>\<^verbatim>\<open>int(s, base)\<close> for a string of digits of that base.\<close>

definition int_of_digits :: "nat \<Rightarrow> string \<Rightarrow> nat" where
  "int_of_digits base s = foldl (\<lambda>acc c. acc * base + digit_value c) 0 s"

fun hex_of_nat :: "nat \<Rightarrow> string" where
  "hex_of_nat n =
     (if n < 16 then [''0123456789abcdef'' ! n]
      else hex_of_nat (n div 16) @ [''0123456789abcdef'' ! (n mod 16)])"

declare hex_of_nat.simps [simp del]

definition parse_octet :: "string \<Rightarrow> nat option" where
  "parse_octet octet_str =
     (if octet_str = [] then None
      else if \<not> list_all (\<lambda>c. c \<in> set ascii_digits) octet_str then None
      else if length octet_str > 3 then None
      else if octet_str \<noteq> ''0'' \<and> hd octet_str = CHR ''0'' then None
      else let octet_int = int_of_digits 10 octet_str
           in if octet_int > 255 then None else Some octet_int)"

definition IPv4_ip_int_from_string :: "string \<Rightarrow> nat option" where
  "IPv4_ip_int_from_string ip_str =
     (if ip_str = [] then None
      else let octets = str_split ip_str CHR ''.''
           in if length octets \<noteq> 4 then None
              else (case those (map parse_octet octets) of
                      None \<Rightarrow> None
                    | Some bs \<Rightarrow> Some (foldl (\<lambda>acc b. acc * 256 + b) 0 bs)))"

definition IPv4Address_of_str :: "string \<Rightarrow> nat option" where
  "IPv4Address_of_str addr_str =
     (if CHR ''/'' \<in> set addr_str then None else IPv4_ip_int_from_string addr_str)"

definition parse_hextet :: "string \<Rightarrow> nat option" where
  "parse_hextet hextet_str =
     (if \<not> list_all (\<lambda>c. c \<in> set ''0123456789ABCDEFabcdef'') hextet_str then None
      else if length hextet_str > 4 then None
      else if hextet_str = [] then None
      else Some (int_of_digits 16 hextet_str))"

text \<open>
  An IPv4-style last part is replaced by its two hextets, written with \<^verbatim>\<open>'%x'\<close>.
\<close>

definition ipv4_suffix :: "string list \<Rightarrow> string list option" where
  "ipv4_suffix parts =
     (if CHR ''.'' \<in> set (last parts) then
        (case IPv4Address_of_str (last parts) of
           None \<Rightarrow> None
         | Some ipv4_int \<Rightarrow>
             Some (butlast parts @
                   [hex_of_nat ((ipv4_int div 65536) mod 65536), hex_of_nat (ipv4_int mod 65536)]))
      else Some parts)"

text \<open>
  The loop over \<^verbatim>\<open>range(1, len(parts) - 1)\<close>: the index of the empty part strictly between
  the endpoints, \<open>Some None\<close> when there is none, and \<open>None\<close> (an error) when there are two
  of them, that is more than one \<^verbatim>\<open>::\<close>.
\<close>

definition find_skip_index :: "string list \<Rightarrow> nat option option" where
  "find_skip_index parts =
     (let inner = butlast (tl parts)
      in if 1 < length (filter (\<lambda>p. p = []) inner) then None
         else if [] \<in> set inner then Some (Some (Suc (length (takeWhile (\<lambda>p. p \<noteq> []) inner))))
         else Some None)"

text \<open>
  The hextets before and after the skipped run, shifted into one integer. Every hextet is
  below \<open>2 ^ 16\<close>, so shifting by 16 and or-ing it in is \<open>ip_int * 65536 + h\<close>.
\<close>

definition parse_hextets :: "string list \<Rightarrow> nat \<Rightarrow> nat \<Rightarrow> nat \<Rightarrow> nat option" where
  "parse_hextets parts parts_hi parts_skipped parts_lo =
     (case those (map parse_hextet (take parts_hi parts)) of
        None \<Rightarrow> None
      | Some his \<Rightarrow>
          (case those (map parse_hextet (drop (length parts - parts_lo) parts)) of
             None \<Rightarrow> None
           | Some los \<Rightarrow>
               Some (foldl (\<lambda>ip_int h. ip_int * 65536 + h)
                       (foldl (\<lambda>ip_int h. ip_int * 65536 + h) 0 his * 2 ^ (16 * parts_skipped))
                       los)))"

definition IPv6_ip_int_from_string :: "string \<Rightarrow> nat option" where
  "IPv6_ip_int_from_string ip_str =
     (if ip_str = [] then None
      else if length (str_split ip_str CHR '':'') < 3 then None
      else (case ipv4_suffix (str_split ip_str CHR '':'') of
              None \<Rightarrow> None
            | Some parts \<Rightarrow>
                if length parts > 9 then None
                else (case find_skip_index parts of
                        None \<Rightarrow> None
                      | Some (Some skip_index) \<Rightarrow>
                          let parts_hi = skip_index;
                              parts_lo = length parts - skip_index - 1
                          in if hd parts = [] \<and> parts_hi - 1 \<noteq> 0 then None
                             else if last parts = [] \<and> parts_lo - 1 \<noteq> 0 then None
                             else let parts_hi = (if hd parts = [] then parts_hi - 1 else parts_hi);
                                      parts_lo = (if last parts = [] then parts_lo - 1 else parts_lo)
                                  in if 8 < parts_hi + parts_lo + 1 then None
                                     else parse_hextets parts parts_hi
                                            (8 - (parts_hi + parts_lo)) parts_lo
                      | Some None \<Rightarrow>
                          if length parts \<noteq> 8 then None
                          else if hd parts = [] then None
                          else if last parts = [] then None
                          else parse_hextets parts (length parts) 0 0)))"

text \<open>\<^verbatim>\<open>_split_scope_id\<close>: the address without its \<^verbatim>\<open>%zone\<close>.\<close>

definition split_scope_id :: "string \<Rightarrow> string option" where
  "split_scope_id ip_str =
     (case str_partition ip_str CHR ''%'' of
        (addr, sep, scope_id) \<Rightarrow>
          if \<not> sep then Some addr
          else if scope_id = [] \<or> CHR ''%'' \<in> set scope_id then None
          else Some addr)"

definition IPv6Address_of_str :: "string \<Rightarrow> nat option" where
  "IPv6Address_of_str addr_str =
     (if CHR ''/'' \<in> set addr_str then None
      else (case split_scope_id addr_str of
              None \<Rightarrow> None
            | Some a \<Rightarrow> IPv6_ip_int_from_string a))"

definition ip_address :: "string \<Rightarrow> ip_addr option" where
  "ip_address address =
     (case IPv4Address_of_str address of
        Some n \<Rightarrow> Some (IPv4Address n)
      | None \<Rightarrow>
          (case IPv6Address_of_str address of
             Some n \<Rightarrow> Some (IPv6Address n)
           | None \<Rightarrow> None))"

text \<open>
  \<^verbatim>\<open>is_loopback\<close>: an IPv4 address lies in the network 127.0.0.0/8 (its first octet is
  127); an IPv6 address is the integer 1, written \<^verbatim>\<open>::1\<close>.
\<close>

fun is_loopback :: "ip_addr \<Rightarrow> bool" where
  "is_loopback (IPv4Address n) = (n div 2 ^ 24 = 127)"
| "is_loopback (IPv6Address n) = (n = 1)"

section \<open>The loopback policy\<close>

definition LOOPBACK_HOSTNAMES :: "string set" where
  "LOOPBACK_HOSTNAMES = {''localhost'', ''localhost.localdomain'', ''ip6-localhost'', ''ip6-loopback''}"

definition is_loopback_address :: "string \<Rightarrow> bool" where
  "is_loopback_address address =
     (case ip_address address of Some ip \<Rightarrow> is_loopback ip | None \<Rightarrow> False)"

definition is_allowed_host :: "string \<Rightarrow> bool" where
  "is_allowed_host host0 =
     (let host = str_strip host0 ''[]''
      in if str_lower host \<in> LOOPBACK_HOSTNAMES then True
         else is_loopback_address host)"

section \<open>Extracting the host of an argument\<close>

text \<open>
  \<^verbatim>\<open>urllib.parse.urlparse(url).hostname\<close> as in CPython 3.11.4 to 3.11.12. Only the
  network location decides the host name, so the model follows \<^verbatim>\<open>urlsplit\<close> up to the
  network location. Later releases check a bracketed network location more strictly and
  raise for some inputs that this one accepts.
  \<^verbatim>\<open>_checknetloc\<close> is left out: it raises only when NFKC normalisation of the network
  location produces one of \<^verbatim>\<open>/?#@:\<close>, which no code point below U+0100 does.
\<close>

definition scheme_chars :: string where
  "scheme_chars = ''abcdefghijklmnopqrstuvwxyzABCDEFGHIJKLMNOPQRSTUVWXYZ0123456789+-.''"

text \<open>
  \<^verbatim>\<open>i = url.find(':'); i > 0 and url[0].isascii() and url[0].isalpha()\<close> and every
  character of \<^verbatim>\<open>url[:i]\<close> is a scheme character.
\<close>

definition has_scheme :: "string \<Rightarrow> bool" where
  "has_scheme url =
     (CHR '':'' \<in> set url \<and> takeWhile (\<lambda>c. c \<noteq> CHR '':'') url \<noteq> [] \<and>
      hd url \<in> set ascii_letters \<and>
      list_all (\<lambda>c. c \<in> set scheme_chars) (takeWhile (\<lambda>c. c \<noteq> CHR '':'') url))"

text \<open>\<^verbatim>\<open>re.match(r"\Av[a-fA-F0-9]+\..+\Z", hostname)\<close>; the dot does not match a newline.\<close>

definition IPVFUTURE_PATTERN :: rx where
  "IPVFUTURE_PATTERN =
     Seq (Chr CHR ''v'')
         (Seq (Plus (\<lambda>c. c \<in> set ''abcdefABCDEF0123456789''))
              (Seq (Chr CHR ''.'') (Plus (\<lambda>c. c \<noteq> CHR 0x0A))))"

text \<open>\<^verbatim>\<open>_check_bracketed_host\<close>: \<open>False\<close> stands for the raised \<^verbatim>\<open>ValueError\<close>.\<close>

definition check_bracketed_host :: "string \<Rightarrow> bool" where
  "check_bracketed_host hostname =
     (if str_startswith hostname ''v'' then [] \<in> set (rmatch IPVFUTURE_PATTERN hostname)
      else (case ip_address hostname of
              Some (IPv6Address n) \<Rightarrow> True
            | Some (IPv4Address n) \<Rightarrow> False
            | None \<Rightarrow> False))"

text \<open>
  The network location found by \<^verbatim>\<open>urlsplit\<close>; \<open>None\<close> when it raises \<^verbatim>\<open>ValueError\<close>.
  Leading C0 control characters and spaces are stripped, tabs and line breaks are removed,
  the scheme is cut off, and after \<^verbatim>\<open>//\<close> the network location runs up to the first of
  \<^verbatim>\<open>/?#\<close>.
\<close>

definition urlsplit_netloc :: "string \<Rightarrow> string option" where
  "urlsplit_netloc url0 =
     (let url1 = dropWhile (\<lambda>c. code_point c \<le> 32) url0;
          url2 = filter (\<lambda>c. c \<notin> set [CHR 0x09, CHR 0x0D, CHR 0x0A]) url1;
          url3 = (if has_scheme url2 then drop 1 (dropWhile (\<lambda>c. c \<noteq> CHR '':'') url2) else url2)
      in if take 2 url3 = ''//'' then
           (let netloc = takeWhile (\<lambda>c. c \<notin> set ''/?#'') (drop 2 url3)
            in if (CHR ''['' \<in> set netloc \<and> CHR '']'' \<notin> set netloc) \<or>
                  (CHR '']'' \<in> set netloc \<and> CHR ''['' \<notin> set netloc) then None
               else if CHR ''['' \<in> set netloc \<and> CHR '']'' \<in> set netloc then
                 (if check_bracketed_host
                       (fst (str_partition (snd (snd (str_partition netloc CHR ''[''))) CHR '']''))
                  then Some netloc else None)
               else Some netloc)
         else Some [])"

text \<open>The \<^verbatim>\<open>hostname\<close> property of a parse result with the given network location.\<close>

definition hostname :: "string \<Rightarrow> string option" where
  "hostname netloc =
     (case str_rpartition netloc CHR ''@'' of
        (u, have_info, hostinfo) \<Rightarrow>
          (case str_partition hostinfo CHR ''['' of
             (b, have_open_br, bracketed) \<Rightarrow>
               (let h = (if have_open_br then fst (str_partition bracketed CHR '']'')
                         else fst (str_partition hostinfo CHR '':''))
                in if h = [] then None
                   else (case str_partition h CHR ''%'' of
                           (name, percent, zone) \<Rightarrow>
                             Some (str_lower name @ (if percent then ''%'' else []) @ zone)))))"

definition extract_host_from_url :: "string \<Rightarrow> string option" where
  "extract_host_from_url url =
     (case urlsplit_netloc url of None \<Rightarrow> None | Some netloc \<Rightarrow> hostname netloc)"

text \<open>
  Group 1 of \<^verbatim>\<open>re.match(r"^\[([^\]]+)\](:\d+)?$", address)\<close>: the first way of matching
  \<^verbatim>\<open>\[([^\]]+)\<close> after which the rest of the pattern matches.
\<close>

definition bracket_group :: "string \<Rightarrow> string option" where
  "bracket_group address =
     (case filter (re_match_dollar (Seq (Chr CHR '']'') port_suffix))
             (rmatch (Seq (Chr CHR ''['') (Plus (\<lambda>c. c \<noteq> CHR '']''))) address) of
        [] \<Rightarrow> None
      | r # rs \<Rightarrow> Some (take (length address - length r - 1) (drop 1 address)))"

definition extract_host_from_address :: "string \<Rightarrow> string option" where
  "extract_host_from_address address =
     (if str_startswith address ''['' then
        (case bracket_group address of Some g \<Rightarrow> Some g | None \<Rightarrow> Some address)
      else if CHR '':'' \<in> set address then
        (case str_rpartition address CHR '':'' of
           (parts0, sep, parts1) \<Rightarrow> if str_isdigit parts1 then Some parts0 else Some address)
      else Some address)"

section \<open>The validator\<close>

text \<open>
  The test \<^verbatim>\<open>if host and not is_allowed_host(host)\<close>: the host is neither \<^verbatim>\<open>None\<close> nor
  empty, and the policy denies it.
\<close>

definition host_denied :: "string option \<Rightarrow> bool" where
  "host_denied host = (case host of None \<Rightarrow> False | Some h \<Rightarrow> h \<noteq> [] \<and> \<not> is_allowed_host h)"

text \<open>
  The four checks of the loop body on one argument text: \<open>Some reason\<close> when the loop
  returns \<^verbatim>\<open>(False, reason)\<close>, \<open>None\<close> when it goes on with the next argument.
\<close>

definition check_arg :: "string \<Rightarrow> string option" where
  "check_arg arg =
     (if re_match_prefix URL_PATTERN arg then
        (if host_denied (extract_host_from_url arg)
         then Some (''URL contains non-loopback host: '' @ arg) else None)
      else if re_match_dollar IPV4_PATTERN arg then
        (if host_denied (extract_host_from_address arg)
         then Some (''IPv4 address is not loopback: '' @ arg) else None)
      else if re_match_dollar IPV6_PATTERN arg then
        (if host_denied (extract_host_from_address arg)
         then Some (''IPv6 address is not loopback: '' @ arg) else None)
      else if re_match_dollar HOST_PORT_PATTERN arg \<and> CHR '':'' \<in> set arg then
        (if host_denied (extract_host_from_address arg)
         then Some (''Host:port contains non-loopback host: '' @ arg) else None)
      else None)"

text \<open>
  The head of the loop body: a token that starts with \<^verbatim>\<open>-\<close> is replaced by the text after
  its first \<^verbatim>\<open>=\<close>, or skipped (\<open>None\<close>) when it has none.
\<close>

definition flag_value :: "string \<Rightarrow> string option" where
  "flag_value arg =
     (if str_startswith arg ''-'' then
        (if CHR ''='' \<in> set arg then Some (snd (snd (str_partition arg CHR ''=''))) else None)
      else Some arg)"

fun validate_network_args :: "string list \<Rightarrow> bool \<times> string" where
  "validate_network_args [] = (True, [])"
| "validate_network_args (arg # args) =
     (case flag_value arg of
        None \<Rightarrow> validate_network_args args
      | Some a \<Rightarrow>
          (case check_arg a of
             Some reason \<Rightarrow> (False, reason)
           | None \<Rightarrow> validate_network_args args))"

section \<open>The environment of one run\<close>

text \<open>
  A path is the list of its components below the working directory, which is taken to be
  a directory. The file system maps a path to a directory or to a file with its content.
  The trace records, in order, what the run does to the outside: what it writes to its
  own output and error streams, the report directory it makes, the files it writes, and
  each call of \<^verbatim>\<open>subprocess.run\<close>.
\<close>

type_synonym path = "string list"

datatype node = Dir | File string

datatype event =
    Stdout string
  | Stderr string
  | PrintHelp
  | Mkdir path
  | WriteFile path string
  | SubprocessRun "string list" "string option"

datatype error = OSError path | IndexError

record world =
  fs :: "path \<Rightarrow> node option"
  trace :: "event list"

text \<open>
  The result of \<^verbatim>\<open>subprocess.run(command, input=stdin_data, capture_output=True)\<close>: a
  completed process with its captured output and return code, or one of the exceptions
  that \<^verbatim>\<open>run_command\<close> tells apart; \<open>OtherException\<close> carries \<^verbatim>\<open>str(e)\<close>.
\<close>

datatype run_result =
    CompletedProcess string string int
  | FileNotFoundError
  | PermissionError
  | OtherException string

record datetime =
  year :: nat
  month :: nat
  day :: nat
  hour :: nat
  minute :: nat
  second :: nat
  microsecond :: nat

text \<open>
  What the run reads from outside. The start and end times, the duration and the resource
  usage are floating-point and clock readings; the environment supplies them as the
  texts that the format fields of \<^verbatim>\<open>result.log\<close> print.
\<close>

record env =
  stdin_isatty :: bool
  stdin_read :: string
  getcwd :: string
  utcnow :: datetime
  subprocess_run :: "string list \<Rightarrow> string option \<Rightarrow> run_result"
  start_time_text :: string
  end_time_text :: string
  duration_text :: string
  user_time_text :: string
  system_time_text :: string
  max_memory_text :: string

record args =
  command :: "string list"
  skip_validation :: bool

definition and_then :: "error + 'a \<Rightarrow> ('a \<Rightarrow> error + 'b) \<Rightarrow> error + 'b" where
  "and_then r k = (case r of Inl e \<Rightarrow> Inl e | Inr x \<Rightarrow> k x)"

text \<open>
  \<^verbatim>\<open>Path.mkdir(parents=True, exist_ok=True)\<close>: every prefix of the path becomes a
  directory; it fails when a prefix exists as a file.
\<close>

fun mkdirs :: "(path \<Rightarrow> node option) \<Rightarrow> path \<Rightarrow> path \<Rightarrow> error + (path \<Rightarrow> node option)" where
  "mkdirs f pre [] = Inr f"
| "mkdirs f pre (d # ds) =
     (case f (pre @ [d]) of
        Some (File x) \<Rightarrow> Inl (OSError (pre @ [d]))
      | Some Dir \<Rightarrow> mkdirs f (pre @ [d]) ds
      | None \<Rightarrow> mkdirs (f((pre @ [d]) \<mapsto> Dir)) (pre @ [d]) ds)"

text \<open>
  \<^verbatim>\<open>Path.write_bytes\<close> and \<^verbatim>\<open>Path.write_text\<close>: the parent must be a directory and the
  path itself must not be one; the file then holds exactly the data, which for
  \<^verbatim>\<open>write_text\<close> is the text handed to it.
\<close>

definition write_file :: "path \<Rightarrow> string \<Rightarrow> world \<Rightarrow> error + world" where
  "write_file p data w =
     (if p = [] \<or> (butlast p \<noteq> [] \<and> fs w (butlast p) \<noteq> Some Dir) \<or> fs w p = Some Dir
      then Inl (OSError p)
      else Inr (w\<lparr>fs := (fs w)(p \<mapsto> File data), trace := trace w @ [WriteFile p data]\<rparr>))"

definition emit :: "event \<Rightarrow> world \<Rightarrow> world" where
  "emit ev w = w\<lparr>trace := trace w @ [ev]\<rparr>"

section \<open>The report directory\<close>

fun str_of_nat :: "nat \<Rightarrow> string" where
  "str_of_nat n =
     (if n < 10 then [''0123456789'' ! n]
      else str_of_nat (n div 10) @ [''0123456789'' ! (n mod 10)])"

declare str_of_nat.simps [simp del]

definition str_of_int :: "int \<Rightarrow> string" where
  "str_of_int i = (if i < 0 then ''-'' @ str_of_nat (nat (- i)) else str_of_nat (nat i))"

text \<open>A number in a field of fixed width, filled with zeros on the left.\<close>

definition zero_pad :: "nat \<Rightarrow> nat \<Rightarrow> string" where
  "zero_pad width n = replicate (width - length (str_of_nat n)) CHR ''0'' @ str_of_nat n"

text \<open>
  \<^verbatim>\<open>strftime("%Y-%m-%dT%H-%M-%S.%f")\<close>; the year has four digits for the years 1000 to
  9999.
\<close>

definition strftime :: "datetime \<Rightarrow> string" where
  "strftime d =
     zero_pad 4 (year d) @ ''-'' @ zero_pad 2 (month d) @ ''-'' @ zero_pad 2 (day d) @ ''T'' @
     zero_pad 2 (hour d) @ ''-'' @ zero_pad 2 (minute d) @ ''-'' @ zero_pad 2 (second d) @ ''.'' @
     zero_pad 6 (microsecond d)"

text \<open>\<^verbatim>\<open>datetime.now(UTC).strftime(...)[:-3]\<close>\<close>

definition get_timestamp :: "env \<Rightarrow> string" where
  "get_timestamp e = take (length (strftime (utcnow e)) - 3) (strftime (utcnow e))"

text \<open>\<^verbatim>\<open>re.sub(r"[^\w\-.]", "_", command_name)\<close>\<close>

definition safe_command_name :: "string \<Rightarrow> string" where
  "safe_command_name command_name =
     map (\<lambda>c. if re_word c \<or> c = CHR ''-'' \<or> c = CHR ''.'' then c else CHR ''_'') command_name"

definition report_dir_path :: "env \<Rightarrow> string \<Rightarrow> path" where
  "report_dir_path e command_name =
     [''test-output'', ''autoapprove'', get_timestamp e @ ''-'' @ safe_command_name command_name]"

definition create_report_directory :: "env \<Rightarrow> string \<Rightarrow> world \<Rightarrow> error + (path \<times> world)" where
  "create_report_directory e command_name w =
     (case mkdirs (fs w) [] (report_dir_path e command_name) of
        Inl err \<Rightarrow> Inl err
      | Inr f \<Rightarrow>
          Inr (report_dir_path e command_name,
               w\<lparr>fs := f, trace := trace w @ [Mkdir (report_dir_path e command_name)]\<rparr>))"

section \<open>Running the command\<close>

text \<open>
  A \<^verbatim>\<open>bytes\<close> value is a \<^typ>\<open>string\<close> too, with one \<^typ>\<open>char\<close> for each byte.
  \<^verbatim>\<open>s.encode()\<close> is the UTF-8 encoding of a text: a code point below U+0080 is one byte,
  itself; a code point \<open>n\<close> from U+0080 to U+00FF is the two bytes \<open>192 + n div 64\<close> and
  \<open>128 + n mod 64\<close>.
\<close>

definition utf8_bytes :: "char \<Rightarrow> string" where
  "utf8_bytes c =
     (if code_point c < 128 then [c]
      else [char_of (192 + code_point c div 64), char_of (128 + code_point c mod 64)])"

definition str_encode :: "string \<Rightarrow> string" where
  "str_encode s = concat (map utf8_bytes s)"

text \<open>
  The \<^verbatim>\<open>try\<close> block around \<^verbatim>\<open>subprocess.run\<close>: captured output bytes, captured error
  bytes and exit code. The error bytes of the three handlers are the encoded message. The
  two handlers that read \<^verbatim>\<open>command[0]\<close> raise \<^verbatim>\<open>IndexError\<close> on an empty command.
\<close>

definition newline :: string where
  "newline = [CHR 0x0A]"

definition classify_run :: "string list \<Rightarrow> run_result \<Rightarrow> error + (string \<times> string \<times> int)" where
  "classify_run cmd r =
     (case r of
        CompletedProcess out err returncode \<Rightarrow> Inr (out, err, returncode)
      | FileNotFoundError \<Rightarrow>
          (case cmd of
             [] \<Rightarrow> Inl IndexError
           | c # cs \<Rightarrow> Inr ([], str_encode (''Command not found: '' @ c @ newline), 127))
      | PermissionError \<Rightarrow>
          (case cmd of
             [] \<Rightarrow> Inl IndexError
           | c # cs \<Rightarrow> Inr ([], str_encode (''Permission denied: '' @ c @ newline), 126))
      | OtherException detail \<Rightarrow>
          Inr ([], str_encode (''Error executing command: '' @ detail @ newline), 1))"

definition result_content :: "env \<Rightarrow> string list \<Rightarrow> int \<Rightarrow> string" where
  "result_content e cmd exit_code =
     ''command: '' @ str_join '' '' cmd @ newline @
     ''working_directory: '' @ getcwd e @ newline @
     ''exit_code: '' @ str_of_int exit_code @ newline @
     ''start_time: '' @ start_time_text e @ newline @
     ''end_time: '' @ end_time_text e @ newline @
     ''duration_seconds: '' @ duration_text e @ newline @
     ''cpu_user_time_seconds: '' @ user_time_text e @ newline @
     ''cpu_system_time_seconds: '' @ system_time_text e @ newline @
     ''max_memory_kb: '' @ max_memory_text e @ newline"

definition run_command ::
    "env \<Rightarrow> string list \<Rightarrow> path \<Rightarrow> string option \<Rightarrow> world \<Rightarrow> error + (int \<times> world)" where
  "run_command e cmd report_dir stdin_data w =
     and_then (write_file (report_dir @ [''STDIN.log''])
                 (case stdin_data of None \<Rightarrow> [] | Some d \<Rightarrow> d) w) (\<lambda>w1.
     and_then (classify_run cmd (subprocess_run e cmd stdin_data)) (\<lambda>(stdout_data, stderr_data, exit_code).
     and_then (write_file (report_dir @ [''STDOUT.log'']) stdout_data
                 (emit (SubprocessRun cmd stdin_data) w1)) (\<lambda>w2.
     and_then (write_file (report_dir @ [''STDERR.log'']) stderr_data w2) (\<lambda>w3.
     and_then (write_file (report_dir @ [''result.log'']) (result_content e cmd exit_code) w3) (\<lambda>w4.
     Inr (exit_code, emit (Stderr stderr_data) (emit (Stdout stdout_data) w4)))))))"

section \<open>The entry point\<close>

text \<open>\<^verbatim>\<open>os.path.basename\<close>: the text after the last slash.\<close>

definition basename :: "string \<Rightarrow> string" where
  "basename p = snd (snd (str_rpartition p CHR ''/''))"

definition denial_lines :: "string \<Rightarrow> event list" where
  "denial_lines error_msg =
     [Stderr (''autoapprove: Network validation failed: '' @ error_msg @ newline),
      Stderr (''autoapprove: Only loopback addresses (127.0.0.1, ::1, localhost) are allowed.'' @ newline),
      Stderr (''autoapprove: Use --skip-validation to bypass this check (not recommended).'' @ newline)]"

text \<open>
  \<^verbatim>\<open>main\<close> after \<^verbatim>\<open>parser.parse_args()\<close>: the parsed arguments are the input. The result
  is the exit code and the world after the run, or the exception that leaves \<^verbatim>\<open>main\<close>.
\<close>

definition main :: "args \<Rightarrow> env \<Rightarrow> world \<Rightarrow> error + (int \<times> world)" where
  "main a e w =
     (if command a = [] then Inr (1, emit PrintHelp w)
      else if \<not> skip_validation a \<and> \<not> fst (validate_network_args (command a)) then
        Inr (1, w\<lparr>trace := trace w @ denial_lines (snd (validate_network_args (command a)))\<rparr>)
      else
        and_then (create_report_directory e (basename (hd (command a))) w) (\<lambda>(report_dir, w1).
          run_command e (command a) report_dir
            (if stdin_isatty e then None else Some (stdin_read e)) w1))"

section \<open>The specification's descriptions\<close>

text \<open>
  The definitions of this section follow the words of the specification; the theorems
  below compare them with the program.
\<close>

text \<open>
  The loopback range: 127.0.0.0/8, the addresses from 127.0.0.0 to 127.255.255.255, for
  IPv4, and \<^verbatim>\<open>::1\<close> for IPv6.
\<close>

definition spec_loopback_range :: "ip_addr \<Rightarrow> bool" where
  "spec_loopback_range ip =
     (case ip of
        IPv4Address n \<Rightarrow> 127 * 2 ^ 24 \<le> n \<and> n < 128 * 2 ^ 24
      | IPv6Address n \<Rightarrow> n = 1)"

text \<open>
  A host is allowed iff its lowercase form is one of the fixed host names, or it parses as
  an IP address in the loopback range.
\<close>

definition spec_is_allowed_host :: "string \<Rightarrow> bool" where
  "spec_is_allowed_host h =
     (str_lower h \<in> LOOPBACK_HOSTNAMES \<or>
      (case ip_address h of Some ip \<Rightarrow> spec_loopback_range ip | None \<Rightarrow> False))"

text \<open>
  The four categories of a network-shaped token, the pattern of each, and the first
  category, in the order URL, IPv4, IPv6, host:port, whose pattern the token matches.
\<close>

datatype category = URL | IPv4 | IPv6 | HostPort

fun matches :: "category \<Rightarrow> string \<Rightarrow> bool" where
  "matches URL tok = re_match_prefix URL_PATTERN tok"
| "matches IPv4 tok = re_match_dollar IPV4_PATTERN tok"
| "matches IPv6 tok = re_match_dollar IPV6_PATTERN tok"
| "matches HostPort tok = (re_match_dollar HOST_PORT_PATTERN tok \<and> CHR '':'' \<in> set tok)"

fun precedence :: "category \<Rightarrow> nat" where
  "precedence URL = 0"
| "precedence IPv4 = 1"
| "precedence IPv6 = 2"
| "precedence HostPort = 3"

definition first_match :: "string \<Rightarrow> category option" where
  "first_match tok = find (\<lambda>c. matches c tok) [URL, IPv4, IPv6, HostPort]"

fun extract_host :: "category \<Rightarrow> string \<Rightarrow> string option" where
  "extract_host URL tok = extract_host_from_url tok"
| "extract_host IPv4 tok = extract_host_from_address tok"
| "extract_host IPv6 tok = extract_host_from_address tok"
| "extract_host HostPort tok = extract_host_from_address tok"

fun denial_reason :: "category \<Rightarrow> string \<Rightarrow> string" where
  "denial_reason URL tok = ''URL contains non-loopback host: '' @ tok"
| "denial_reason IPv4 tok = ''IPv4 address is not loopback: '' @ tok"
| "denial_reason IPv6 tok = ''IPv6 address is not loopback: '' @ tok"
| "denial_reason HostPort tok = ''Host:port contains non-loopback host: '' @ tok"

text \<open>The verdict on a token under one category: the host of that category, judged.\<close>

definition judge :: "category \<Rightarrow> string \<Rightarrow> string option" where
  "judge c tok = (if host_denied (extract_host c tok) then Some (denial_reason c tok) else None)"

text \<open>Sanitization replaces every character outside \<^verbatim>\<open>[A-Za-z0-9_.-]\<close> with an underscore.\<close>

definition spec_sanitize :: "string \<Rightarrow> string" where
  "spec_sanitize name =
     map (\<lambda>c. if c \<in> set ascii_letters \<or> c \<in> set ascii_digits \<or> c \<in> set ''_.-'' then c
              else CHR ''_'') name"

text \<open>
  The report directories made and the execution records (\<^verbatim>\<open>result.log\<close>) written in a
  trace.
\<close>

fun is_report_directory :: "event \<Rightarrow> bool" where
  "is_report_directory (Mkdir p) = True"
| "is_report_directory ev = False"

fun is_execution_record :: "event \<Rightarrow> bool" where
  "is_execution_record (WriteFile p data) = (p \<noteq> [] \<and> last p = ''result.log'')"
| "is_execution_record ev = False"

fun is_subprocess_run :: "event \<Rightarrow> bool" where
  "is_subprocess_run (SubprocessRun cmd stdin_data) = True"
| "is_subprocess_run ev = False"

definition report_directories :: "event list \<Rightarrow> event list" where
  "report_directories t = filter is_report_directory t"

definition execution_records :: "event list \<Rightarrow> event list" where
  "execution_records t = filter is_execution_record t"

text \<open>
  The world after a run has persisted its full report and passed the captured output on:
  the four files of the report directory hold the input, the captured output, the captured
  error text and the execution record, and the captured bytes are written to the
  wrapper's own streams.
\<close>

definition reported ::
    "env \<Rightarrow> string list \<Rightarrow> path \<Rightarrow> string option \<Rightarrow> string \<Rightarrow> string \<Rightarrow> int \<Rightarrow> world \<Rightarrow> world" where
  "reported e cmd report_dir stdin_data out err exit_code w =
     w\<lparr>fs := (fs w)
            (report_dir @ [''STDIN.log''] \<mapsto> File (case stdin_data of None \<Rightarrow> [] | Some d \<Rightarrow> d),
             report_dir @ [''STDOUT.log''] \<mapsto> File out,
             report_dir @ [''STDERR.log''] \<mapsto> File err,
             report_dir @ [''result.log''] \<mapsto> File (result_content e cmd exit_code)),
       trace := trace w @
         [WriteFile (report_dir @ [''STDIN.log'']) (case stdin_data of None \<Rightarrow> [] | Some d \<Rightarrow> d),
          SubprocessRun cmd stdin_data,
          WriteFile (report_dir @ [''STDOUT.log'']) out,
          WriteFile (report_dir @ [''STDERR.log'']) err,
          WriteFile (report_dir @ [''result.log'']) (result_content e cmd exit_code),
          Stdout out,
          Stderr err]\<rparr>"

text \<open>Validation denies a run: it is not skipped and the validator does not allow the arguments.\<close>

definition validation_denies :: "args \<Rightarrow> bool" where
  "validation_denies a = (\<not> skip_validation a \<and> \<not> fst (validate_network_args (command a)))"

text \<open>
  The millisecond timestamp of a moment: date and time with hyphens for the colons, a
  period, and the milliseconds in three digits.
\<close>

definition timestamp_ms :: "datetime \<Rightarrow> string" where
  "timestamp_ms d =
     zero_pad 4 (year d) @ ''-'' @ zero_pad 2 (month d) @ ''-'' @ zero_pad 2 (day d) @ ''T'' @
     zero_pad 2 (hour d) @ ''-'' @ zero_pad 2 (minute d) @ ''-'' @ zero_pad 2 (second d) @ ''.'' @
     zero_pad 3 (microsecond d div 1000)"

section \<open>Example runs\<close>

text \<open>
  An environment in which \<^verbatim>\<open>missing\<close> is not installed, \<^verbatim>\<open>locked\<close> may not be executed,
  starting \<^verbatim>\<open>broken\<close> fails otherwise, and every other command prints a line and exits
  with 0; and a world with an empty working directory and nothing done yet.
\<close>

definition example_run :: "string list \<Rightarrow> string option \<Rightarrow> run_result" where
  "example_run cmd stdin_data =
     (if cmd = [''missing''] then FileNotFoundError
      else if cmd = [''locked''] then PermissionError
      else if cmd = [''broken''] then OtherException ''exec format error''
      else CompletedProcess (''hello'' @ newline) [] 0)"

definition example_env :: env where
  "example_env =
     \<lparr>stdin_isatty = True, stdin_read = [], getcwd = ''/work'',
      utcnow = \<lparr>year = 2025, month = 1, day = 2, hour = 3, minute = 4, second = 5,
                microsecond = 678901\<rparr>,
      subprocess_run = example_run,
      start_time_text = ''2025-01-02T03:04:05.700000+00:00'',
      end_time_text = ''2025-01-02T03:04:05.800000+00:00'',
      duration_text = ''0.100000'', user_time_text = ''0.000000'',
      system_time_text = ''0.000000'', max_memory_text = ''0''\<rparr>"

definition empty_world :: world where
  "empty_world = \<lparr>fs = (\<lambda>p. None), trace = []\<rparr>"

text \<open>A world in which the report directory \<^verbatim>\<open>r\<close> exists and is empty.\<close>

definition report_world :: world where
  "report_world = \<lparr>fs = (\<lambda>p. if p = [''r''] then Some Dir else None), trace = []\<rparr>"

section \<open>Evaluation\<close>

lemma Times_3: "Times 3 r = Seq r (Seq r (Seq r Eps))"
  by (simp add: numeral_3_eq_3)

lemmas str_defs = ascii_digits_def ascii_letters_def ascii_uppercase_def code_point_def re_digit_def
  re_word_def chr_isdigit_def str_isdigit_def chr_lower_def str_lower_def str_startswith_def
  str_lstrip_def str_strip_def str_partition_def str_rpartition_def str_join_def char_of_def bit_0

lemmas rx_defs = Chr_def ChrI_def at_dollar_def re_match_prefix_def re_match_dollar_def
  URL_PATTERN_def port_suffix_def IPV4_PATTERN_def IPV6_PATTERN_def HOST_PORT_PATTERN_def
  IPVFUTURE_PATTERN_def Times_3

lemmas ip_defs = ip_address_def IPv4Address_of_str_def IPv6Address_of_str_def
  IPv4_ip_int_from_string_def IPv6_ip_int_from_string_def parse_octet_def parse_hextet_def
  parse_hextets_def find_skip_index_def ipv4_suffix_def split_scope_id_def int_of_digits_def
  digit_value_def

lemmas host_defs = LOOPBACK_HOSTNAMES_def is_loopback_address_def is_allowed_host_def
  scheme_chars_def has_scheme_def check_bracketed_host_def urlsplit_netloc_def hostname_def
  extract_host_from_url_def bracket_group_def extract_host_from_address_def host_denied_def
  check_arg_def flag_value_def

lemmas eval_defs = str_defs rx_defs ip_defs host_defs Let_def

section \<open>Stripping brackets\<close>

lemma str_lstrip_id: "(\<And>c. c \<in> set s \<Longrightarrow> c \<notin> set chars) \<Longrightarrow> str_lstrip s chars = s"
  by (cases s) (auto simp: str_lstrip_def)

lemma str_strip_id:
  assumes "\<And>c. c \<in> set s \<Longrightarrow> c \<notin> set chars"
  shows "str_strip s chars = s"
proof -
  have "str_lstrip s chars = s" using assms by (rule str_lstrip_id)
  moreover have "str_lstrip (rev s) chars = rev s" using assms by (intro str_lstrip_id) simp
  ultimately show ?thesis by (simp add: str_strip_def)
qed

lemma str_strip_brackets:
  assumes "CHR ''['' \<notin> set h" and "CHR '']'' \<notin> set h"
  shows "str_strip (''['' @ h @ '']'') ''[]'' = h"
proof (cases h)
  case Nil
  then show ?thesis by (simp add: str_strip_def str_lstrip_def)
next
  case (Cons c cs)
  have free: "\<And>x. x \<in> set h \<Longrightarrow> x \<notin> set ''[]''" using assms by auto
  have l: "str_lstrip (''['' @ h @ '']'') ''[]'' = h @ '']''"
    using Cons assms by (auto simp: str_lstrip_def)
  have "rev (h @ '']'') = CHR '']'' # rev h" by simp
  moreover have "rev h \<noteq> []" using Cons by simp
  moreover have "str_lstrip (rev h) ''[]'' = rev h" using free by (intro str_lstrip_id) simp
  ultimately have "str_lstrip (rev (h @ '']'')) ''[]'' = rev h"
    by (simp add: str_lstrip_def)
  with l show ?thesis by (simp add: str_strip_def)
qed

lemma ip_address_loopback6: "ip_address ''::1'' = Some (IPv6Address 1)"
  by (simp add: ip_defs str_defs Let_def)

lemma allowed_loopback6: "is_allowed_host ''::1''"
  by (simp add: is_allowed_host_def is_loopback_address_def ip_address_loopback6 str_defs LOOPBACK_HOSTNAMES_def)

lemma is_allowed_host_brackets:
  assumes "CHR ''['' \<notin> set h" and "CHR '']'' \<notin> set h"
  shows "is_allowed_host (''['' @ h @ '']'') = is_allowed_host h"
proof -
  have "str_strip (''['' @ h @ '']'') ''[]'' = h" using assms by (rule str_strip_brackets)
  moreover have "str_strip h ''[]'' = h" using assms by (intro str_strip_id) auto
  ultimately show ?thesis by (simp add: is_allowed_host_def)
qed

section \<open>Claims\<close>

text \<open>
  C9. The policy is invariant under IPv6-style bracketing: for every host string \<open>h\<close> that
  contains no square bracket, \<^verbatim>\<open>is_allowed_host("[" + h + "]")\<close> equals
  \<^verbatim>\<open>is_allowed_host(h)\<close>, because the surrounding brackets are stripped before the
  host-name and loopback checks; in particular \<^verbatim>\<open>[::1]\<close> is allowed.
\<close>

theorem C9_bracket_invariance:
  assumes "CHR ''['' \<notin> set h" and "CHR '']'' \<notin> set h"
  shows "is_allowed_host (''['' @ h @ '']'') = is_allowed_host h \<and> is_allowed_host ''[::1]''"
proof -
  have "is_allowed_host (''['' @ ''::1'' @ '']'') = is_allowed_host ''::1''"
    by (rule is_allowed_host_brackets) simp_all
  then have "is_allowed_host ''[::1]''" using allowed_loopback6 by simp
  moreover have "is_allowed_host (''['' @ h @ '']'') = is_allowed_host h"
    using assms by (rule is_allowed_host_brackets)
  ultimately show ?thesis by blast
qed

theorem C9_bracket_invariance_witness:
  "CHR ''['' \<notin> set ''localhost'' \<and> CHR '']'' \<notin> set ''localhost'' \<and>
   is_allowed_host ''[localhost]'' = is_allowed_host ''localhost'' \<and> is_allowed_host ''[::1]''"
  using C9_bracket_invariance [of "''localhost''"] by simp

lemma is_loopback_range: "is_loopback ip = spec_loopback_range ip"
  by (cases ip) (auto simp: spec_loopback_range_def)

text \<open>
  C2, as the specification states it, fails: \<^verbatim>\<open>[::1]\<close> is allowed, although its lowercase
  form is not one of the host names and it does not parse as an IP address.
\<close>

theorem C2_counterexample: "is_allowed_host ''[::1]'' \<noteq> spec_is_allowed_host ''[::1]''"
proof -
  have "is_allowed_host ''[::1]''"
    using is_allowed_host_brackets [of "''::1''"] allowed_loopback6 by simp
  moreover have "ip_address ''[::1]'' = None" by (simp add: ip_defs str_defs Let_def)
  then have "\<not> spec_is_allowed_host ''[::1]''"
    by (simp add: spec_is_allowed_host_def LOOPBACK_HOSTNAMES_def str_defs)
  ultimately show ?thesis by simp
qed

text \<open>
  C2 (amended). For every host string \<open>h\<close>, the policy allows \<open>h\<close> if and only if \<open>h\<close> with
  its leading and trailing square brackets stripped has a lowercase form among
  \<^verbatim>\<open>localhost\<close>, \<^verbatim>\<open>localhost.localdomain\<close>, \<^verbatim>\<open>ip6-localhost\<close>, \<^verbatim>\<open>ip6-loopback\<close>, or parses as
  an IP address in the loopback range (127.0.0.0/8 for IPv4, \<^verbatim>\<open>::1\<close> for IPv6). Every other
  string, malformed ones included, is denied by the result \<open>False\<close>: the policy is a total
  function and has no error result.
\<close>

theorem C2_allowed_host: "is_allowed_host h = spec_is_allowed_host (str_strip h ''[]'')"
  by (simp add: is_allowed_host_def spec_is_allowed_host_def is_loopback_address_def
      is_loopback_range Let_def split: option.split)

theorem C2_allowed_host_witness:
  "is_allowed_host ''[LocalHost]'' = spec_is_allowed_host ''LocalHost'' \<and>
   spec_is_allowed_host ''LocalHost''"
proof -
  have "str_strip ''[LocalHost]'' ''[]'' = ''LocalHost''"
    by (simp add: str_strip_def str_lstrip_def)
  moreover have "spec_is_allowed_host ''LocalHost''"
    by (simp add: spec_is_allowed_host_def LOOPBACK_HOSTNAMES_def str_defs)
  ultimately show ?thesis using C2_allowed_host [of "''[LocalHost]''"] by simp
qed

lemma check_arg_first_match:
  "check_arg tok = (case first_match tok of None \<Rightarrow> None | Some c \<Rightarrow> judge c tok)"
  by (simp add: check_arg_def first_match_def judge_def)

lemma first_match_least:
  "(case first_match tok of
      None \<Rightarrow> \<forall>c. \<not> matches c tok
    | Some c \<Rightarrow> matches c tok \<and> (\<forall>c'. matches c' tok \<longrightarrow> precedence c \<le> precedence c'))"
proof -
  have all: "\<And>P. (\<forall>c. P c) = (P URL \<and> P IPv4 \<and> P IPv6 \<and> P HostPort)"
    by (metis category.exhaust)
  show ?thesis unfolding first_match_def all by simp
qed

text \<open>
  C3. For every single argument token, the categories are checked in the fixed order URL
  scheme, IPv4 dotted quad, IPv6, host:port, and the first category whose pattern matches
  wins: the verdict on the token is the verdict under that category alone, whatever later
  patterns the token also matches, and a token that matches no pattern is not judged.
\<close>

theorem C3_first_match_wins:
  "check_arg tok = (case first_match tok of None \<Rightarrow> None | Some c \<Rightarrow> judge c tok) \<and>
   (case first_match tok of
      None \<Rightarrow> \<forall>c. \<not> matches c tok
    | Some c \<Rightarrow> matches c tok \<and> (\<forall>c'. matches c' tok \<longrightarrow> precedence c \<le> precedence c'))"
  using check_arg_first_match [of tok] first_match_least [of tok] by simp

lemma abc_80_matches: "\<not> matches URL ''abc:80'' \<and> \<not> matches IPv4 ''abc:80'' \<and> matches IPv6 ''abc:80'' \<and> matches HostPort ''abc:80''"
  by (simp add: rx_defs str_defs)

theorem C3_first_match_wins_witness:
  "first_match ''abc:80'' = Some IPv6 \<and> matches HostPort ''abc:80'' \<and>
   check_arg ''abc:80'' = Some ''IPv6 address is not loopback: abc:80''"
proof -
  have fm: "first_match ''abc:80'' = Some IPv6"
    using abc_80_matches by (simp add: first_match_def)
  have "extract_host_from_address ''abc:80'' = Some ''abc''"
    by (simp add: extract_host_from_address_def str_defs)
  moreover have "\<not> is_allowed_host ''abc''"
    by (simp add: is_allowed_host_def is_loopback_address_def LOOPBACK_HOSTNAMES_def ip_defs str_defs Let_def)
  ultimately have "judge IPv6 ''abc:80'' = Some ''IPv6 address is not loopback: abc:80''"
    by (simp add: judge_def host_denied_def)
  then show ?thesis using C3_first_match_wins [of "''abc:80''"] fm abc_80_matches by simp
qed

section \<open>Tokens that are skipped\<close>

lemma validate_skip:
  assumes "flag_value tok = None \<or> (\<exists>v. flag_value tok = Some v \<and> check_arg v = None)"
  shows "validate_network_args (pre @ tok # rest) = validate_network_args (pre @ rest)"
proof (induction pre)
  case Nil
  from assms show ?case by auto
next
  case (Cons p ps)
  then show ?case by (simp split: option.split)
qed

lemma flag_value_bare:
  "str_startswith tok ''-'' \<Longrightarrow> CHR ''='' \<notin> set tok \<Longrightarrow> flag_value tok = None"
  by (simp add: flag_value_def)

lemma flag_value_eq:
  assumes "str_startswith tok ''-''" and "tok = name @ ''='' @ v" and "CHR ''='' \<notin> set name"
  shows "flag_value tok = Some v"
proof -
  have "dropWhile (\<lambda>x. x \<noteq> CHR ''='') name = []" using assms(3) by auto
  then have "dropWhile (\<lambda>x. x \<noteq> CHR ''='') tok = CHR ''='' # v"
    using assms(2) by (simp add: dropWhile_append3)
  then show ?thesis using assms(1,2) by (simp add: flag_value_def str_partition_def)
qed

lemma no_match_empty: "\<not> matches c []"
  by (cases c) (simp_all add: rx_defs str_defs)

lemma check_arg_empty: "check_arg [] = None"
  using check_arg_first_match [of "[]"] no_match_empty by (simp add: first_match_def)

lemma example_com_denied:
  "check_arg ''http://example.com'' = Some ''URL contains non-loopback host: http://example.com''"
proof -
  have "re_match_prefix URL_PATTERN ''http://example.com''" by (simp add: rx_defs str_defs)
  moreover have "extract_host_from_url ''http://example.com'' = Some ''example.com''"
    by (simp add: eval_defs)
  moreover have "\<not> is_allowed_host ''example.com''" by (simp add: eval_defs)
  ultimately show ?thesis by (simp add: check_arg_def host_denied_def)
qed

text \<open>
  C5. For every token that begins with \<^verbatim>\<open>-\<close>: if it contains \<^verbatim>\<open>=\<close>, only the text after
  the first \<^verbatim>\<open>=\<close> is classified, and the verdict does not depend on the flag name before
  it; if it contains no \<^verbatim>\<open>=\<close>, the whole token is skipped, so that removing it from the
  argument list never changes the result. The argument list
  \<^verbatim>\<open>["curl", "--url=http://example.com"]\<close> is denied with a reason that mentions
  \<^verbatim>\<open>non-loopback\<close>.
\<close>

theorem C5_flag_tokens:
  assumes "str_startswith tok ''-''"
  shows "(\<forall>name v. tok = name @ ''='' @ v \<and> CHR ''='' \<notin> set name \<longrightarrow>
            validate_network_args (tok # rest) =
              (case check_arg v of
                 Some reason \<Rightarrow> (False, reason)
               | None \<Rightarrow> validate_network_args rest)) \<and>
         (CHR ''='' \<notin> set tok \<longrightarrow>
            validate_network_args (pre @ tok # rest) = validate_network_args (pre @ rest)) \<and>
         validate_network_args [''curl'', ''--url=http://example.com''] =
           (False, ''URL contains '' @ ''non-loopback'' @ '' host: http://example.com'')"
proof (intro conjI allI impI)
  fix name v
  assume "tok = name @ ''='' @ v \<and> CHR ''='' \<notin> set name"
  then have "flag_value tok = Some v" using assms flag_value_eq by blast
  then show "validate_network_args (tok # rest) =
      (case check_arg v of Some reason \<Rightarrow> (False, reason) | None \<Rightarrow> validate_network_args rest)"
    by simp
next
  assume "CHR ''='' \<notin> set tok"
  then have "flag_value tok = None" using assms by (simp add: flag_value_bare)
  then show "validate_network_args (pre @ tok # rest) = validate_network_args (pre @ rest)"
    by (simp add: validate_skip)
next
  have "flag_value ''curl'' = Some ''curl''" by (simp add: flag_value_def str_startswith_def)
  moreover have "check_arg ''curl'' = None" by (simp add: check_arg_def rx_defs str_defs)
  moreover have "flag_value ''--url=http://example.com'' = Some ''http://example.com''"
    by (simp add: flag_value_def str_startswith_def str_partition_def)
  ultimately show "validate_network_args [''curl'', ''--url=http://example.com''] =
      (False, ''URL contains '' @ ''non-loopback'' @ '' host: http://example.com'')"
    using example_com_denied by simp
qed

theorem C5_flag_tokens_witness:
  "str_startswith ''--url=http://example.com'' ''-'' \<and>
   validate_network_args [''--url=http://example.com'', ''-v''] =
     (False, ''URL contains non-loopback host: http://example.com'') \<and>
   str_startswith ''-v'' ''-'' \<and> CHR ''='' \<notin> set ''-v'' \<and>
   validate_network_args [''docker'', ''-v'', ''ps''] = validate_network_args [''docker'', ''ps'']"
proof -
  have s1: "str_startswith ''--url=http://example.com'' ''-''" by (simp add: str_startswith_def)
  have s2: "str_startswith ''-v'' ''-''" by (simp add: str_startswith_def)
  have "validate_network_args [''--url=http://example.com'', ''-v''] =
     (case check_arg ''http://example.com'' of
        Some reason \<Rightarrow> (False, reason)
      | None \<Rightarrow> validate_network_args [''-v''])"
  proof -
    have "\<forall>name v. ''--url=http://example.com'' = name @ ''='' @ v \<and> CHR ''='' \<notin> set name \<longrightarrow>
            validate_network_args (''--url=http://example.com'' # [''-v'']) =
              (case check_arg v of
                 Some reason \<Rightarrow> (False, reason)
               | None \<Rightarrow> validate_network_args [''-v''])"
      using C5_flag_tokens [OF s1, of "[''-v'']" "[]"] by (rule conjunct1)
    moreover have "''--url=http://example.com'' = ''--url'' @ ''='' @ ''http://example.com'' \<and>
        CHR ''='' \<notin> set ''--url''"
      by simp
    ultimately show ?thesis by blast
  qed
  moreover have "validate_network_args ([''docker''] @ ''-v'' # [''ps'']) =
      validate_network_args ([''docker''] @ [''ps''])"
    using C5_flag_tokens [OF s2, of "[''ps'']" "[''docker'']"] by simp
  ultimately show ?thesis using s1 s2 example_com_denied by simp
qed

text \<open>
  C10. An empty-string token, and a flag token whose first \<^verbatim>\<open>=\<close> is its last character (an
  empty flag value), never cause denial: removing such a token from any argument list
  leaves the result of \<^verbatim>\<open>validate_network_args\<close> unchanged, because no pattern of a
  network shape matches the empty string.
\<close>

theorem C10_empty_tokens:
  "validate_network_args (pre @ [] # rest) = validate_network_args (pre @ rest) \<and>
   (str_startswith tok ''-'' \<and> tok = name @ ''='' \<and> CHR ''='' \<notin> set name \<longrightarrow>
      validate_network_args (pre @ tok # rest) = validate_network_args (pre @ rest)) \<and>
   (\<forall>c. \<not> matches c [])"
proof (intro conjI impI allI)
  have "flag_value [] = Some []" by (simp add: flag_value_def str_startswith_def)
  then show "validate_network_args (pre @ [] # rest) = validate_network_args (pre @ rest)"
    using check_arg_empty by (intro validate_skip) simp
next
  assume a: "str_startswith tok ''-'' \<and> tok = name @ ''='' \<and> CHR ''='' \<notin> set name"
  then have "tok = name @ ''='' @ []" by simp
  with a have "flag_value tok = Some []" by (intro flag_value_eq [of tok name "[]"]) blast+
  then show "validate_network_args (pre @ tok # rest) = validate_network_args (pre @ rest)"
    using check_arg_empty by (intro validate_skip) simp
next
  fix c show "\<not> matches c []" by (rule no_match_empty)
qed

theorem C10_empty_tokens_witness:
  "str_startswith ''--data='' ''-'' \<and> CHR ''='' \<notin> set ''--data'' \<and>
   validate_network_args [''curl'', ''--data='', [], ''localhost:80''] = (True, []) \<and>
   validate_network_args [''curl'', ''--data='', ''localhost:80''] = (True, []) \<and>
   validate_network_args [''curl'', ''localhost:80''] = (True, [])"
proof -
  have s: "str_startswith ''--data='' ''-''" by (simp add: str_startswith_def)
  have ok: "validate_network_args [''curl'', ''localhost:80''] = (True, [])"
    by (simp add: eval_defs)
  have "validate_network_args ([''curl'', ''--data=''] @ [] # [''localhost:80'']) =
      validate_network_args ([''curl'', ''--data=''] @ [''localhost:80''])"
    using C10_empty_tokens [of "[''curl'', ''--data='']" "[''localhost:80'']"] by blast
  moreover have "validate_network_args ([''curl''] @ ''--data='' # [''localhost:80'']) =
      validate_network_args ([''curl''] @ [''localhost:80''])"
    using C10_empty_tokens [of "[''curl'']" "[''localhost:80'']" "''--data=''" "''--data''"] s
    by simp
  ultimately show ?thesis using s ok by simp
qed

text \<open>
  C4. The claim is that a token is IPv6-shaped only when it carries a bracket or a colon,
  so that an argument list of bare words validates as allowed. The program's IPv6 pattern
  makes both brackets optional and admits any run of hexadecimal digits: the bare word
  \<^verbatim>\<open>add\<close>, which has no bracket and no colon, matches it, and the argument list
  \<^verbatim>\<open>["git", "add"]\<close> is denied as an IPv6 address that is not loopback.
\<close>

theorem C4_hex_word_denied:
  "matches IPv6 ''add'' \<and>
   CHR ''['' \<notin> set ''add'' \<and> CHR '']'' \<notin> set ''add'' \<and> CHR '':'' \<notin> set ''add'' \<and>
   validate_network_args [''git'', ''add''] = (False, ''IPv6 address is not loopback: add'')"
  by (simp add: eval_defs)

section \<open>Denied runs\<close>

lemma validate_denied:
  "validate_network_args xs = (False, r) \<Longrightarrow>
   \<exists>tok v. tok \<in> set xs \<and> flag_value tok = Some v \<and> check_arg v = Some r"
proof (induction xs)
  case Nil
  then show ?case by simp
next
  case (Cons x xs)
  show ?case
  proof (cases "flag_value x")
    case None
    with Cons show ?thesis by auto
  next
    case (Some v)
    show ?thesis
    proof (cases "check_arg v")
      case None
      with Some Cons show ?thesis by auto
    next
      case (Some r')
      with \<open>flag_value x = Some v\<close> Cons.prems have "r' = r" by simp
      with Some \<open>flag_value x = Some v\<close> show ?thesis by auto
    qed
  qed
qed

lemma check_arg_reason: "check_arg v = Some r \<Longrightarrow> \<exists>c. r = denial_reason c v"
  using check_arg_first_match [of v]
  by (auto simp: judge_def split: option.splits if_splits)

text \<open>
  C1. For every invocation run with \<^verbatim>\<open>skip_validation\<close> false whose argument list the
  validator denies, \<^verbatim>\<open>main\<close> writes exactly three lines to the error stream (the denial
  reason, which ends with the text of the offending token that was classified; the
  statement that only loopback addresses are allowed; the \<^verbatim>\<open>--skip-validation\<close> hint) and
  returns exit code 1, without calling \<^verbatim>\<open>subprocess.run\<close>, without creating a report
  directory and without touching the file system.
\<close>

theorem C1_denied_invocation:
  assumes "\<not> skip_validation a"
    and "validate_network_args (command a) = (False, reason)"
  shows "\<exists>w'. main a e w = Inr (1, w') \<and>
           trace w' = trace w @
             [Stderr (''autoapprove: Network validation failed: '' @ reason @ newline),
              Stderr (''autoapprove: Only loopback addresses (127.0.0.1, ::1, localhost) are allowed.'' @ newline),
              Stderr (''autoapprove: Use --skip-validation to bypass this check (not recommended).'' @ newline)] \<and>
           fs w' = fs w \<and>
           filter is_subprocess_run (trace w') = filter is_subprocess_run (trace w) \<and>
           report_directories (trace w') = report_directories (trace w) \<and>
           (\<exists>tok v c. tok \<in> set (command a) \<and> flag_value tok = Some v \<and> reason = denial_reason c v)"
proof -
  have ne: "command a \<noteq> []" using assms(2) by auto
  have m: "main a e w = Inr (1, w\<lparr>trace := trace w @ denial_lines reason\<rparr>)"
    using assms ne by (simp add: main_def)
  obtain tok v where "tok \<in> set (command a)" "flag_value tok = Some v" "check_arg v = Some reason"
    using validate_denied [OF assms(2)] by blast
  moreover from this obtain c where "reason = denial_reason c v"
    using check_arg_reason by blast
  ultimately have "\<exists>tok v c. tok \<in> set (command a) \<and> flag_value tok = Some v \<and> reason = denial_reason c v"
    by blast
  with m show ?thesis by (simp add: denial_lines_def report_directories_def)
qed

lemma example_com_list_denied:
  "validate_network_args [''curl'', ''http://example.com''] =
     (False, ''URL contains non-loopback host: http://example.com'')"
proof -
  have "flag_value ''curl'' = Some ''curl''" by (simp add: flag_value_def str_startswith_def)
  moreover have "check_arg ''curl'' = None" by (simp add: check_arg_def rx_defs str_defs)
  moreover have "flag_value ''http://example.com'' = Some ''http://example.com''"
    by (simp add: flag_value_def str_startswith_def)
  ultimately show ?thesis using example_com_denied by simp
qed

theorem C1_denied_invocation_witness:
  "\<not> skip_validation \<lparr>command = [''curl'', ''http://example.com''], skip_validation = False\<rparr> \<and>
   validate_network_args [''curl'', ''http://example.com''] =
     (False, ''URL contains non-loopback host: http://example.com'') \<and>
   main \<lparr>command = [''curl'', ''http://example.com''], skip_validation = False\<rparr> example_env empty_world =
     Inr (1, \<lparr>fs = (\<lambda>p. None),
              trace = [Stderr (''autoapprove: Network validation failed: URL contains non-loopback host: http://example.com'' @ newline),
                       Stderr (''autoapprove: Only loopback addresses (127.0.0.1, ::1, localhost) are allowed.'' @ newline),
                       Stderr (''autoapprove: Use --skip-validation to bypass this check (not recommended).'' @ newline)]\<rparr>)"
proof -
  let ?a = "\<lparr>command = [''curl'', ''http://example.com''], skip_validation = False\<rparr>"
  have v: "validate_network_args (command ?a) = (False, ''URL contains non-loopback host: http://example.com'')"
    using example_com_list_denied by simp
  have s: "\<not> skip_validation ?a" by simp
  obtain w' where "main ?a example_env empty_world = Inr (1, w')"
    and "trace w' = trace empty_world @
             [Stderr (''autoapprove: Network validation failed: '' @ ''URL contains non-loopback host: http://example.com'' @ newline),
              Stderr (''autoapprove: Only loopback addresses (127.0.0.1, ::1, localhost) are allowed.'' @ newline),
              Stderr (''autoapprove: Use --skip-validation to bypass this check (not recommended).'' @ newline)]"
    and "fs w' = fs empty_world"
    using C1_denied_invocation [OF s v, of example_env empty_world] by blast
  then show ?thesis using example_com_list_denied by (cases w') (simp add: empty_world_def)
qed

section \<open>Persisting the report\<close>

lemma write_file_ok:
  assumes "p \<noteq> []" and "butlast p = [] \<or> fs w (butlast p) = Some Dir" and "fs w p \<noteq> Some Dir"
  shows "write_file p data w =
     Inr (w\<lparr>fs := (fs w)(p \<mapsto> File data), trace := trace w @ [WriteFile p data]\<rparr>)"
  using assms by (auto simp: write_file_def)

lemma run_command_reported:
  assumes dir: "report_dir \<noteq> []" "fs w report_dir = Some Dir"
    and files: "fs w (report_dir @ [''STDIN.log'']) \<noteq> Some Dir"
      "fs w (report_dir @ [''STDOUT.log'']) \<noteq> Some Dir"
      "fs w (report_dir @ [''STDERR.log'']) \<noteq> Some Dir"
      "fs w (report_dir @ [''result.log'']) \<noteq> Some Dir"
    and cls: "classify_run cmd (subprocess_run e cmd stdin_data) = Inr (out, err, exit_code)"
  shows "run_command e cmd report_dir stdin_data w =
     Inr (exit_code, reported e cmd report_dir stdin_data out err exit_code w)"
proof -
  let ?d = "case stdin_data of None \<Rightarrow> [] | Some d \<Rightarrow> d"
  let ?w1 = "w\<lparr>fs := (fs w)(report_dir @ [''STDIN.log''] \<mapsto> File ?d),
               trace := trace w @ [WriteFile (report_dir @ [''STDIN.log'']) ?d]\<rparr>"
  let ?w1' = "emit (SubprocessRun cmd stdin_data) ?w1"
  let ?w2 = "?w1'\<lparr>fs := (fs ?w1')(report_dir @ [''STDOUT.log''] \<mapsto> File out),
               trace := trace ?w1' @ [WriteFile (report_dir @ [''STDOUT.log'']) out]\<rparr>"
  let ?w3 = "?w2\<lparr>fs := (fs ?w2)(report_dir @ [''STDERR.log''] \<mapsto> File err),
               trace := trace ?w2 @ [WriteFile (report_dir @ [''STDERR.log'']) err]\<rparr>"
  let ?rc = "result_content e cmd exit_code"
  let ?w4 = "?w3\<lparr>fs := (fs ?w3)(report_dir @ [''result.log''] \<mapsto> File ?rc),
               trace := trace ?w3 @ [WriteFile (report_dir @ [''result.log'']) ?rc]\<rparr>"
  have 1: "write_file (report_dir @ [''STDIN.log'']) ?d w = Inr ?w1"
    using dir files by (intro write_file_ok) simp_all
  have 2: "write_file (report_dir @ [''STDOUT.log'']) out ?w1' = Inr ?w2"
    using dir files by (intro write_file_ok) (simp_all add: emit_def)
  have 3: "write_file (report_dir @ [''STDERR.log'']) err ?w2 = Inr ?w3"
    using dir files by (intro write_file_ok) (simp_all add: emit_def)
  have 4: "write_file (report_dir @ [''result.log'']) ?rc ?w3 = Inr ?w4"
    using dir files by (intro write_file_ok) (simp_all add: emit_def)
  have "run_command e cmd report_dir stdin_data w =
      Inr (exit_code, emit (Stderr err) (emit (Stdout out) ?w4))"
    unfolding run_command_def by (simp only: 1 2 3 4 cls and_then_def sum.case prod.case)
  also have "emit (Stderr err) (emit (Stdout out) ?w4) =
      reported e cmd report_dir stdin_data out err exit_code w"
    by (simp add: emit_def reported_def)
  finally show ?thesis .
qed

lemma reported_files:
  "fs (reported e cmd report_dir stdin_data out err exit_code w) (report_dir @ [''STDOUT.log'']) =
     Some (File out) \<and>
   fs (reported e cmd report_dir stdin_data out err exit_code w) (report_dir @ [''STDERR.log'']) =
     Some (File err) \<and>
   fs (reported e cmd report_dir stdin_data out err exit_code w) (report_dir @ [''result.log'']) =
     Some (File (result_content e cmd exit_code))"
  by (simp add: reported_def)

lemma str_encode_ascii: "\<forall>c\<in>set s. code_point c < 128 \<Longrightarrow> str_encode s = s"
  by (induction s) (simp_all add: str_encode_def utf8_bytes_def)

lemma message_ascii:
  assumes "\<forall>c\<in>set s. code_point c < 128"
  shows "str_encode (''Command not found: '' @ s @ newline) = ''Command not found: '' @ s @ newline"
    and "str_encode (''Permission denied: '' @ s @ newline) = ''Permission denied: '' @ s @ newline"
    and "str_encode (''Error executing command: '' @ s @ newline) =
         ''Error executing command: '' @ s @ newline"
  using assms by (auto intro!: str_encode_ascii simp: code_point_def newline_def)

text \<open>
  C6. When starting the child fails, the outcome is classified exactly as: binary not
  found, exit code 127 and the error text \<^verbatim>\<open>Command not found: <name>\<close>; permission
  denied, exit code 126 and \<^verbatim>\<open>Permission denied: <name>\<close>; any other fault, exit code 1
  and \<^verbatim>\<open>Error executing command: <detail>\<close>. Each text ends with a newline, and the
  error bytes are its UTF-8 encoding, which for a name or detail of ASCII characters is the
  text itself. In all three cases the captured output is empty, and the full report
  (\<^verbatim>\<open>STDOUT.log\<close>, \<^verbatim>\<open>STDERR.log\<close>, \<^verbatim>\<open>result.log\<close>) is still persisted in the report
  directory, provided the report directory exists and none of the four log names is
  itself a directory.
\<close>

theorem C6_spawn_failures:
  assumes "cmd = name # rest"
    and "report_dir \<noteq> []" and "fs w report_dir = Some Dir"
    and "fs w (report_dir @ [''STDIN.log'']) \<noteq> Some Dir"
    and "fs w (report_dir @ [''STDOUT.log'']) \<noteq> Some Dir"
    and "fs w (report_dir @ [''STDERR.log'']) \<noteq> Some Dir"
    and "fs w (report_dir @ [''result.log'']) \<noteq> Some Dir"
  shows "(subprocess_run e cmd stdin_data = FileNotFoundError \<longrightarrow>
            run_command e cmd report_dir stdin_data w =
              Inr (127, reported e cmd report_dir stdin_data []
                          (str_encode (''Command not found: '' @ name @ newline)) 127 w)) \<and>
         (subprocess_run e cmd stdin_data = PermissionError \<longrightarrow>
            run_command e cmd report_dir stdin_data w =
              Inr (126, reported e cmd report_dir stdin_data []
                          (str_encode (''Permission denied: '' @ name @ newline)) 126 w)) \<and>
         (\<forall>detail. subprocess_run e cmd stdin_data = OtherException detail \<longrightarrow>
            run_command e cmd report_dir stdin_data w =
              Inr (1, reported e cmd report_dir stdin_data []
                        (str_encode (''Error executing command: '' @ detail @ newline)) 1 w)) \<and>
         (\<forall>s. (\<forall>c\<in>set s. code_point c < 128) \<longrightarrow>
            str_encode (''Command not found: '' @ s @ newline) =
              ''Command not found: '' @ s @ newline \<and>
            str_encode (''Permission denied: '' @ s @ newline) =
              ''Permission denied: '' @ s @ newline \<and>
            str_encode (''Error executing command: '' @ s @ newline) =
              ''Error executing command: '' @ s @ newline) \<and>
         (\<forall>out err exit_code.
            fs (reported e cmd report_dir stdin_data out err exit_code w) (report_dir @ [''STDOUT.log'']) =
              Some (File out) \<and>
            fs (reported e cmd report_dir stdin_data out err exit_code w) (report_dir @ [''STDERR.log'']) =
              Some (File err) \<and>
            fs (reported e cmd report_dir stdin_data out err exit_code w) (report_dir @ [''result.log'']) =
              Some (File (result_content e cmd exit_code)))"
proof (intro conjI impI allI)
  assume "subprocess_run e cmd stdin_data = FileNotFoundError"
  then have "classify_run cmd (subprocess_run e cmd stdin_data) =
      Inr ([], str_encode (''Command not found: '' @ name @ newline), 127)"
    using assms(1) by (simp add: classify_run_def)
  with assms(2-7) show "run_command e cmd report_dir stdin_data w =
      Inr (127, reported e cmd report_dir stdin_data []
                  (str_encode (''Command not found: '' @ name @ newline)) 127 w)"
    by (rule run_command_reported)
next
  assume "subprocess_run e cmd stdin_data = PermissionError"
  then have "classify_run cmd (subprocess_run e cmd stdin_data) =
      Inr ([], str_encode (''Permission denied: '' @ name @ newline), 126)"
    using assms(1) by (simp add: classify_run_def)
  with assms(2-7) show "run_command e cmd report_dir stdin_data w =
      Inr (126, reported e cmd report_dir stdin_data []
                  (str_encode (''Permission denied: '' @ name @ newline)) 126 w)"
    by (rule run_command_reported)
next
  fix detail
  assume "subprocess_run e cmd stdin_data = OtherException detail"
  then have "classify_run cmd (subprocess_run e cmd stdin_data) =
      Inr ([], str_encode (''Error executing command: '' @ detail @ newline), 1)"
    by (simp add: classify_run_def)
  with assms(2-7) show "run_command e cmd report_dir stdin_data w =
      Inr (1, reported e cmd report_dir stdin_data []
                (str_encode (''Error executing command: '' @ detail @ newline)) 1 w)"
    by (rule run_command_reported)
next
  fix s assume "\<forall>c\<in>set s. code_point c < 128"
  then show "str_encode (''Command not found: '' @ s @ newline) =
      ''Command not found: '' @ s @ newline"
    by (rule message_ascii)
next
  fix s assume "\<forall>c\<in>set s. code_point c < 128"
  then show "str_encode (''Permission denied: '' @ s @ newline) =
      ''Permission denied: '' @ s @ newline"
    by (rule message_ascii)
next
  fix s assume "\<forall>c\<in>set s. code_point c < 128"
  then show "str_encode (''Error executing command: '' @ s @ newline) =
      ''Error executing command: '' @ s @ newline"
    by (rule message_ascii)
qed (simp_all add: reported_files)

theorem C6_spawn_failures_witness:
  "run_command example_env [''missing''] [''r''] None report_world =
     Inr (127, reported example_env [''missing''] [''r''] None []
                 (''Command not found: missing'' @ newline) 127 report_world) \<and>
   run_command example_env [''locked''] [''r''] None report_world =
     Inr (126, reported example_env [''locked''] [''r''] None []
                 (''Permission denied: locked'' @ newline) 126 report_world) \<and>
   run_command example_env [''broken''] [''r''] None report_world =
     Inr (1, reported example_env [''broken''] [''r''] None []
               (''Error executing command: exec format error'' @ newline) 1 report_world) \<and>
   fs (reported example_env [''missing''] [''r''] None []
         (''Command not found: missing'' @ newline) 127 report_world) [''r'', ''STDERR.log''] =
     Some (File (''Command not found: missing'' @ newline)) \<and>
   run_command (example_env\<lparr>subprocess_run := \<lambda>cmd stdin_data. FileNotFoundError\<rparr>)
       [[CHR ''c'', CHR ''a'', CHR ''f'', CHR 0xE9]] [''r''] None report_world =
     Inr (127, reported (example_env\<lparr>subprocess_run := \<lambda>cmd stdin_data. FileNotFoundError\<rparr>)
                 [[CHR ''c'', CHR ''a'', CHR ''f'', CHR 0xE9]] [''r''] None []
                 (''Command not found: caf'' @ [CHR 0xC3, CHR 0xA9] @ newline) 127 report_world)"
proof -
  let ?e = "example_env\<lparr>subprocess_run := \<lambda>cmd stdin_data. FileNotFoundError\<rparr>"
  have d: "[''r''] \<noteq> ([]::path)" "fs report_world [''r''] = Some Dir"
    "fs report_world ([''r''] @ [''STDIN.log'']) \<noteq> Some Dir"
    "fs report_world ([''r''] @ [''STDOUT.log'']) \<noteq> Some Dir"
    "fs report_world ([''r''] @ [''STDERR.log'']) \<noteq> Some Dir"
    "fs report_world ([''r''] @ [''result.log'']) \<noteq> Some Dir"
    by (simp_all add: report_world_def)
  have r: "subprocess_run example_env [''missing''] None = FileNotFoundError"
    "subprocess_run example_env [''locked''] None = PermissionError"
    "subprocess_run example_env [''broken''] None = OtherException ''exec format error''"
    "subprocess_run ?e [[CHR ''c'', CHR ''a'', CHR ''f'', CHR 0xE9]] None = FileNotFoundError"
    by (simp_all add: example_env_def example_run_def)
  have enc: "str_encode (''Command not found: '' @ ''missing'' @ newline) =
      ''Command not found: missing'' @ newline"
    "str_encode (''Permission denied: '' @ ''locked'' @ newline) =
      ''Permission denied: locked'' @ newline"
    "str_encode (''Error executing command: '' @ ''exec format error'' @ newline) =
      ''Error executing command: exec format error'' @ newline"
    "str_encode (''Command not found: '' @ [CHR ''c'', CHR ''a'', CHR ''f'', CHR 0xE9] @ newline) =
      ''Command not found: caf'' @ [CHR 0xC3, CHR 0xA9] @ newline"
    by (simp_all add: str_encode_def utf8_bytes_def code_point_def newline_def char_of_def bit_0)
  have 1: "run_command example_env [''missing''] [''r''] None report_world =
     Inr (127, reported example_env [''missing''] [''r''] None []
                 (str_encode (''Command not found: '' @ ''missing'' @ newline)) 127 report_world)"
    using C6_spawn_failures [where name = "''missing''" and rest = "[]" and e = example_env
        and stdin_data = None, OF refl d] r(1)
    by blast
  have 2: "run_command example_env [''locked''] [''r''] None report_world =
     Inr (126, reported example_env [''locked''] [''r''] None []
                 (str_encode (''Permission denied: '' @ ''locked'' @ newline)) 126 report_world)"
    using C6_spawn_failures [where name = "''locked''" and rest = "[]" and e = example_env
        and stdin_data = None, OF refl d] r(2)
    by blast
  have 3: "run_command example_env [''broken''] [''r''] None report_world =
     Inr (1, reported example_env [''broken''] [''r''] None []
               (str_encode (''Error executing command: '' @ ''exec format error'' @ newline)) 1
               report_world)"
    using C6_spawn_failures [where name = "''broken''" and rest = "[]" and e = example_env
        and stdin_data = None, OF refl d] r(3)
    by blast
  have 4: "run_command ?e [[CHR ''c'', CHR ''a'', CHR ''f'', CHR 0xE9]] [''r''] None report_world =
     Inr (127, reported ?e [[CHR ''c'', CHR ''a'', CHR ''f'', CHR 0xE9]] [''r''] None []
                 (str_encode (''Command not found: '' @ [CHR ''c'', CHR ''a'', CHR ''f'', CHR 0xE9] @ newline))
                 127 report_world)"
    using C6_spawn_failures [where name = "[CHR ''c'', CHR ''a'', CHR ''f'', CHR 0xE9]" and rest = "[]"
        and e = ?e and stdin_data = None, OF refl d] r(4)
    by blast
  have 5: "fs (reported example_env [''missing''] [''r''] None []
         (''Command not found: missing'' @ newline) 127 report_world) [''r'', ''STDERR.log''] =
     Some (File (''Command not found: missing'' @ newline))"
    using reported_files [of example_env "[''missing'']" "[''r'']" None "[]"
        "''Command not found: missing'' @ newline" 127 report_world]
    by simp
  show ?thesis using 1 2 3 4 5 unfolding enc by blast
qed

section \<open>The report directory and the execution record\<close>

lemma mkdirs3:
  "mkdirs f [] [a, b, c] =
     (if \<exists>x. f [a] = Some (File x) then Inl (OSError [a])
      else if \<exists>x. f [a, b] = Some (File x) then Inl (OSError [a, b])
      else if \<exists>x. f [a, b, c] = Some (File x) then Inl (OSError [a, b, c])
      else Inr (f([a] \<mapsto> Dir, [a, b] \<mapsto> Dir, [a, b, c] \<mapsto> Dir)))"
proof -
  have idem: "\<And>g p. g p = Some Dir \<Longrightarrow> g(p \<mapsto> Dir) = g" by (rule fun_upd_idem)
  show ?thesis
    by (cases "f [a]"; cases "f [a, b]"; cases "f [a, b, c]")
       (auto simp: idem fun_upd_twist split: node.splits)
qed

lemma create_report_directory_cases:
  "create_report_directory e name w =
     (if \<exists>x. fs w [''test-output''] = Some (File x) then Inl (OSError [''test-output''])
      else if \<exists>x. fs w [''test-output'', ''autoapprove''] = Some (File x)
        then Inl (OSError [''test-output'', ''autoapprove''])
      else if \<exists>x. fs w (report_dir_path e name) = Some (File x)
        then Inl (OSError (report_dir_path e name))
      else Inr (report_dir_path e name,
                w\<lparr>fs := (fs w)([''test-output''] \<mapsto> Dir, [''test-output'', ''autoapprove''] \<mapsto> Dir,
                              report_dir_path e name \<mapsto> Dir),
                  trace := trace w @ [Mkdir (report_dir_path e name)]\<rparr>))"
  unfolding create_report_directory_def
  by (simp add: report_dir_path_def mkdirs3 del: mkdirs.simps)

lemma zero_pad_Suc:
  assumes "0 < w"
  shows "zero_pad (Suc w) n = zero_pad w (n div 10) @ [''0123456789'' ! (n mod 10)]"
proof (cases "n < 10")
  case True
  then have "str_of_nat n = [''0123456789'' ! n]" by (subst str_of_nat.simps) simp
  moreover have "str_of_nat 0 = ''0''" by (subst str_of_nat.simps) simp
  moreover have "replicate (w - Suc 0) CHR ''0'' @ ''0'' = replicate w CHR ''0''"
    using assms by (cases w) (simp_all add: replicate_append_same)
  ultimately show ?thesis using True by (simp add: zero_pad_def)
next
  case False
  then have "str_of_nat n = str_of_nat (n div 10) @ [''0123456789'' ! (n mod 10)]"
    by (subst str_of_nat.simps) simp
  then show ?thesis by (simp add: zero_pad_def)
qed

lemma zero_pad_6:
  "\<exists>a b c. zero_pad 6 n = zero_pad 3 (n div 1000) @ [a, b, c]"
proof -
  have "zero_pad 6 n = zero_pad (Suc 5) n" by simp
  also have "\<dots> = zero_pad 5 (n div 10) @ [''0123456789'' ! (n mod 10)]"
    by (rule zero_pad_Suc) simp
  also have "zero_pad 5 (n div 10) = zero_pad (Suc 4) (n div 10)" by simp
  also have "\<dots> = zero_pad 4 (n div 10 div 10) @ [''0123456789'' ! (n div 10 mod 10)]"
    by (rule zero_pad_Suc) simp
  also have "zero_pad 4 (n div 10 div 10) = zero_pad (Suc 3) (n div 10 div 10)" by simp
  also have "\<dots> = zero_pad 3 (n div 10 div 10 div 10) @ [''0123456789'' ! (n div 10 div 10 mod 10)]"
    by (rule zero_pad_Suc) simp
  also have "n div 10 div 10 div 10 = n div 1000" by (simp add: div_mult2_eq [symmetric])
  finally show ?thesis by simp
qed

lemma get_timestamp_ms: "get_timestamp e = timestamp_ms (utcnow e)"
proof -
  obtain a b c where
    "zero_pad 6 (microsecond (utcnow e)) = zero_pad 3 (microsecond (utcnow e) div 1000) @ [a, b, c]"
    using zero_pad_6 by blast
  then have "strftime (utcnow e) = timestamp_ms (utcnow e) @ [a, b, c]"
    by (simp add: strftime_def timestamp_ms_def)
  then show ?thesis by (simp add: get_timestamp_def)
qed

lemma re_word_ascii:
  assumes "code_point c < 128"
  shows "re_word c = (c \<in> set ascii_letters \<or> c \<in> set ascii_digits \<or> c = CHR ''_'')"
  using assms by (auto simp: re_word_def)

lemma safe_command_name_ascii:
  assumes "\<forall>c\<in>set name. code_point c < 128"
  shows "safe_command_name name = spec_sanitize name"
  unfolding safe_command_name_def spec_sanitize_def
proof (rule map_cong [OF refl])
  fix c assume "c \<in> set name"
  then have "code_point c < 128" using assms by blast
  then show "(if re_word c \<or> c = CHR ''-'' \<or> c = CHR ''.'' then c else CHR ''_'') =
      (if c \<in> set ascii_letters \<or> c \<in> set ascii_digits \<or> c \<in> set ''_.-'' then c else CHR ''_'')"
    by (auto simp: re_word_ascii)
qed

text \<open>
  C8, as the specification states it, fails: in the command name \<^verbatim>\<open>caf\<close> followed by the
  letter e with acute accent (U+00E9), that letter is outside \<^verbatim>\<open>[A-Za-z0-9_.-]\<close>, but the
  program keeps it, because it is a word character of the pattern \<^verbatim>\<open>[^\w\-.]\<close>.
\<close>

theorem C8_counterexample:
  "safe_command_name [CHR ''c'', CHR ''a'', CHR ''f'', CHR 0xE9] \<noteq>
   spec_sanitize [CHR ''c'', CHR ''a'', CHR ''f'', CHR 0xE9]"
  by (simp add: safe_command_name_def spec_sanitize_def str_defs)

text \<open>
  C8 (amended). \<^verbatim>\<open>create_report_directory(command_name)\<close> builds the path
  \<^verbatim>\<open>test-output/autoapprove/<timestamp>-<sanitized_command_name>\<close>, where the timestamp is
  the current UTC time to the millisecond, and sanitization replaces with an underscore
  every character that is not a word character (\<^verbatim>\<open>\w\<close>: a letter or digit of any script,
  or the underscore), a hyphen or a period; on command names of ASCII characters this
  is the replacement of every character outside \<^verbatim>\<open>[A-Za-z0-9_.-]\<close>. It creates the
  directory and its parents if absent, leaves the rest of the file system as it is, and
  fails only when one of the three directories exists as a file.
\<close>

theorem C8_report_directory:
  "report_dir_path e name =
     [''test-output'', ''autoapprove'', timestamp_ms (utcnow e) @ ''-'' @ safe_command_name name] \<and>
   safe_command_name name =
     map (\<lambda>c. if re_word c \<or> c = CHR ''-'' \<or> c = CHR ''.'' then c else CHR ''_'') name \<and>
   ((\<forall>c\<in>set name. code_point c < 128) \<longrightarrow> safe_command_name name = spec_sanitize name) \<and>
   (case create_report_directory e name w of
      Inr (p, w') \<Rightarrow>
        p = report_dir_path e name \<and>
        fs w' = (fs w)([''test-output''] \<mapsto> Dir, [''test-output'', ''autoapprove''] \<mapsto> Dir,
                       report_dir_path e name \<mapsto> Dir) \<and>
        trace w' = trace w @ [Mkdir (report_dir_path e name)]
    | Inl err \<Rightarrow>
        \<exists>q x. err = OSError q \<and> fs w q = Some (File x) \<and>
              q \<in> {[''test-output''], [''test-output'', ''autoapprove''], report_dir_path e name})"
proof (intro conjI)
  show "report_dir_path e name =
     [''test-output'', ''autoapprove'', timestamp_ms (utcnow e) @ ''-'' @ safe_command_name name]"
    by (simp add: report_dir_path_def get_timestamp_ms)
  show "safe_command_name name =
     map (\<lambda>c. if re_word c \<or> c = CHR ''-'' \<or> c = CHR ''.'' then c else CHR ''_'') name"
    by (simp add: safe_command_name_def)
  show "(\<forall>c\<in>set name. code_point c < 128) \<longrightarrow> safe_command_name name = spec_sanitize name"
    using safe_command_name_ascii by blast
  show "case create_report_directory e name w of
      Inr (p, w') \<Rightarrow>
        p = report_dir_path e name \<and>
        fs w' = (fs w)([''test-output''] \<mapsto> Dir, [''test-output'', ''autoapprove''] \<mapsto> Dir,
                       report_dir_path e name \<mapsto> Dir) \<and>
        trace w' = trace w @ [Mkdir (report_dir_path e name)]
    | Inl err \<Rightarrow>
        \<exists>q x. err = OSError q \<and> fs w q = Some (File x) \<and>
              q \<in> {[''test-output''], [''test-output'', ''autoapprove''], report_dir_path e name}"
    unfolding create_report_directory_cases by auto
qed

theorem C8_report_directory_witness:
  "report_dir_path example_env ''my tool'' =
     [''test-output'', ''autoapprove'', ''2025-01-02T03-04-05.678-my_tool''] \<and>
   safe_command_name ''my tool'' = spec_sanitize ''my tool'' \<and>
   create_report_directory example_env ''my tool'' empty_world =
     Inr ([''test-output'', ''autoapprove'', ''2025-01-02T03-04-05.678-my_tool''],
          \<lparr>fs = (\<lambda>p. None)
                 ([''test-output''] \<mapsto> Dir, [''test-output'', ''autoapprove''] \<mapsto> Dir,
                  [''test-output'', ''autoapprove'', ''2025-01-02T03-04-05.678-my_tool''] \<mapsto> Dir),
            trace = [Mkdir [''test-output'', ''autoapprove'', ''2025-01-02T03-04-05.678-my_tool'']]\<rparr>)"
proof -
  note c8 = C8_report_directory [of example_env "''my tool''" empty_world]
  have ts: "timestamp_ms (utcnow example_env) = ''2025-01-02T03-04-05.678''"
    by (simp add: timestamp_ms_def example_env_def zero_pad_def str_of_nat.simps)
  have sn: "safe_command_name ''my tool'' = ''my_tool''"
    by (simp add: safe_command_name_def str_defs)
  have p: "report_dir_path example_env ''my tool'' =
      [''test-output'', ''autoapprove'', ''2025-01-02T03-04-05.678-my_tool'']"
    using c8 ts sn by simp
  have "\<forall>c\<in>set ''my tool''. code_point c < 128" by (simp add: code_point_def)
  with c8 have s: "safe_command_name ''my tool'' = spec_sanitize ''my tool''" by blast
  have "\<not> (\<exists>err. create_report_directory example_env ''my tool'' empty_world = Inl err)"
  proof
    assume "\<exists>err. create_report_directory example_env ''my tool'' empty_world = Inl err"
    then obtain err where "create_report_directory example_env ''my tool'' empty_world = Inl err"
      by blast
    with c8 show False by (simp add: empty_world_def)
  qed
  then obtain q w' where r: "create_report_directory example_env ''my tool'' empty_world = Inr (q, w')"
    by (cases "create_report_directory example_env ''my tool'' empty_world") auto
  with c8 p have "q = [''test-output'', ''autoapprove'', ''2025-01-02T03-04-05.678-my_tool'']"
    and "fs w' = (\<lambda>p. None)
                 ([''test-output''] \<mapsto> Dir, [''test-output'', ''autoapprove''] \<mapsto> Dir,
                  [''test-output'', ''autoapprove'', ''2025-01-02T03-04-05.678-my_tool''] \<mapsto> Dir)"
    and "trace w' = [Mkdir [''test-output'', ''autoapprove'', ''2025-01-02T03-04-05.678-my_tool'']]"
    by (simp_all add: empty_world_def)
  with r p s show ?thesis by (cases w') simp
qed

lemma write_file_Inr:
  "write_file p d w = Inr w1 \<Longrightarrow>
   w1 = w\<lparr>fs := (fs w)(p \<mapsto> File d), trace := trace w @ [WriteFile p d]\<rparr>"
  by (auto simp: write_file_def split: if_splits)

lemma run_command_Inr:
  assumes "run_command e cmd rd sd w = Inr (code, w')"
  shows "\<exists>out err. w' = reported e cmd rd sd out err code w"
proof -
  let ?d = "case sd of None \<Rightarrow> [] | Some d \<Rightarrow> d"
  from assms obtain w1 where 1: "write_file (rd @ [''STDIN.log'']) ?d w = Inr w1"
    by (auto simp: run_command_def and_then_def split: sum.splits)
  from assms 1 obtain out err c where cls: "classify_run cmd (subprocess_run e cmd sd) = Inr (out, err, c)"
    by (auto simp: run_command_def and_then_def split: sum.splits)
  from assms 1 cls obtain w2 where
    2: "write_file (rd @ [''STDOUT.log'']) out (emit (SubprocessRun cmd sd) w1) = Inr w2"
    by (auto simp: run_command_def and_then_def split: sum.splits)
  from assms 1 cls 2 obtain w3 where 3: "write_file (rd @ [''STDERR.log'']) err w2 = Inr w3"
    by (auto simp: run_command_def and_then_def split: sum.splits)
  from assms 1 cls 2 3 obtain w4 where
    4: "write_file (rd @ [''result.log'']) (result_content e cmd c) w3 = Inr w4"
    by (auto simp: run_command_def and_then_def split: sum.splits)
  from assms 1 cls 2 3 4 have r: "c = code" "w' = emit (Stderr err) (emit (Stdout out) w4)"
    by (auto simp: run_command_def and_then_def)
  have "w' = reported e cmd rd sd out err code w"
    unfolding r(2) write_file_Inr [OF 4] write_file_Inr [OF 3] write_file_Inr [OF 2]
      write_file_Inr [OF 1] r(1) [symmetric]
    by (simp add: emit_def reported_def)
  then show ?thesis by blast
qed

lemma reported_counts:
  "report_directories (trace (reported e cmd rd sd out err code w)) = report_directories (trace w) \<and>
   execution_records (trace (reported e cmd rd sd out err code w)) =
     execution_records (trace w) @ [WriteFile (rd @ [''result.log'']) (result_content e cmd code)]"
  by (simp add: reported_def report_directories_def execution_records_def)

lemma classify_run_nonempty:
  "cmd \<noteq> [] \<Longrightarrow> \<exists>out err code. classify_run cmd r = Inr (out, err, code)"
  by (cases cmd; cases r) (simp_all add: classify_run_def)

lemma main_returns:
  assumes "command a \<noteq> []" and "fs w = (\<lambda>p. None)"
  shows "\<exists>code w'. main a e w = Inr (code, w')"
proof (cases "validation_denies a")
  case True
  then show ?thesis using assms(1) by (simp add: main_def validation_denies_def)
next
  case False
  let ?rd = "report_dir_path e (basename (hd (command a)))"
  let ?w1 = "w\<lparr>fs := (fs w)([''test-output''] \<mapsto> Dir, [''test-output'', ''autoapprove''] \<mapsto> Dir,
                              ?rd \<mapsto> Dir),
               trace := trace w @ [Mkdir ?rd]\<rparr>"
  let ?sd = "if stdin_isatty e then None else Some (stdin_read e)"
  have c: "create_report_directory e (basename (hd (command a))) w = Inr (?rd, ?w1)"
    using assms(2) by (simp add: create_report_directory_cases)
  obtain out err code where
    "classify_run (command a) (subprocess_run e (command a) ?sd) = Inr (out, err, code)"
    using classify_run_nonempty [OF assms(1)] by blast
  moreover have "?rd \<noteq> []" "fs ?w1 ?rd = Some Dir" by (simp_all add: report_dir_path_def)
  moreover have "\<And>f. fs ?w1 (?rd @ [f]) \<noteq> Some Dir"
    using assms(2) by (simp add: report_dir_path_def)
  ultimately have "run_command e (command a) ?rd ?sd ?w1 =
      Inr (code, reported e (command a) ?rd ?sd out err code ?w1)"
    by (intro run_command_reported)
  with c False assms(1) show ?thesis
    by (simp add: main_def validation_denies_def and_then_def)
qed

text \<open>
  C7, as the specification states it, fails: a run that validation denies makes no report
  directory.
\<close>

theorem C7_counterexample:
  "(case main \<lparr>command = [''curl'', ''http://example.com''], skip_validation = False\<rparr>
           example_env empty_world of
      Inr (code, w') \<Rightarrow> code = 1 \<and> report_directories (trace w') = [] \<and> fs w' = (\<lambda>p. None)
    | Inl err \<Rightarrow> False)"
  using example_com_list_denied
  by (simp add: main_def empty_world_def denial_lines_def report_directories_def)

lemma echo_hello_allowed: "validate_network_args [''echo'', ''hello''] = (True, [])"
  by (simp add: eval_defs)

text \<open>
  C7 (amended). The validator is a total function, so every invocation that is validated
  has exactly one validation result. Every invocation with a command that returns from
  \<^verbatim>\<open>main\<close> yields exactly one report directory and exactly one execution record
  (\<^verbatim>\<open>result.log\<close>, written in that directory) if validation does not deny it, that is if
  validation allows it or is skipped, and neither of them if validation denies it. In an
  empty working directory every such invocation returns from \<^verbatim>\<open>main\<close>.
\<close>

theorem C7_report_and_record:
  assumes "command a \<noteq> []"
  shows "(\<forall>code w'. main a e w = Inr (code, w') \<longrightarrow>
            report_directories (trace w') =
              report_directories (trace w) @
              (if validation_denies a then []
               else [Mkdir (report_dir_path e (basename (hd (command a))))]) \<and>
            execution_records (trace w') =
              execution_records (trace w) @
              (if validation_denies a then []
               else [WriteFile (report_dir_path e (basename (hd (command a))) @ [''result.log''])
                       (result_content e (command a) code)])) \<and>
         (fs w = (\<lambda>p. None) \<longrightarrow> (\<exists>code w'. main a e w = Inr (code, w')))"
proof (intro conjI allI impI)
  fix code w'
  assume m: "main a e w = Inr (code, w')"
  let ?rd = "report_dir_path e (basename (hd (command a)))"
  let ?sd = "if stdin_isatty e then None else Some (stdin_read e)"
  have "report_directories (trace w') =
          report_directories (trace w) @ (if validation_denies a then [] else [Mkdir ?rd]) \<and>
        execution_records (trace w') =
          execution_records (trace w) @
          (if validation_denies a then []
           else [WriteFile (?rd @ [''result.log'']) (result_content e (command a) code)])"
  proof (cases "validation_denies a")
    case True
    with m assms have "w' = w\<lparr>trace := trace w @ denial_lines (snd (validate_network_args (command a)))\<rparr>"
      by (simp add: main_def validation_denies_def)
    with True show ?thesis
      by (simp add: denial_lines_def report_directories_def execution_records_def)
  next
    case False
    with m assms obtain rd w1 where
      c: "create_report_directory e (basename (hd (command a))) w = Inr (rd, w1)" and
      r: "run_command e (command a) rd ?sd w1 = Inr (code, w')"
      by (auto simp: main_def validation_denies_def and_then_def split: sum.splits)
    from c have rd: "rd = ?rd" and t1: "trace w1 = trace w @ [Mkdir ?rd]"
      by (auto simp: create_report_directory_cases split: if_splits)
    from r obtain out err where "w' = reported e (command a) rd ?sd out err code w1"
      using run_command_Inr by blast
    moreover have "report_directories (trace w1) = report_directories (trace w) @ [Mkdir ?rd]"
      and "execution_records (trace w1) = execution_records (trace w)"
      using t1 by (simp_all add: report_directories_def execution_records_def)
    ultimately show ?thesis using False rd by (simp add: reported_counts)
  qed
  then show "report_directories (trace w') =
          report_directories (trace w) @ (if validation_denies a then [] else [Mkdir ?rd])"
    and "execution_records (trace w') =
          execution_records (trace w) @
          (if validation_denies a then []
           else [WriteFile (?rd @ [''result.log'']) (result_content e (command a) code)])"
    by blast+
next
  assume "fs w = (\<lambda>p. None)"
  with assms show "\<exists>code w'. main a e w = Inr (code, w')" by (rule main_returns)
qed

theorem C7_report_and_record_witness:
  "command \<lparr>command = [''echo'', ''hello''], skip_validation = False\<rparr> \<noteq> [] \<and>
   \<not> validation_denies \<lparr>command = [''echo'', ''hello''], skip_validation = False\<rparr> \<and>
   (case main \<lparr>command = [''echo'', ''hello''], skip_validation = False\<rparr> example_env empty_world of
      Inr (code, w') \<Rightarrow>
        report_directories (trace w') = [Mkdir (report_dir_path example_env ''echo'')] \<and>
        execution_records (trace w') =
          [WriteFile (report_dir_path example_env ''echo'' @ [''result.log''])
             (result_content example_env [''echo'', ''hello''] code)]
    | Inl err \<Rightarrow> False)"
proof -
  let ?a = "\<lparr>command = [''echo'', ''hello''], skip_validation = False\<rparr>"
  have ne: "command ?a \<noteq> []" by simp
  have nd: "\<not> validation_denies ?a" using echo_hello_allowed by (simp add: validation_denies_def)
  have bn: "basename (hd (command ?a)) = ''echo''" by (simp add: basename_def str_rpartition_def)
  note c7 = C7_report_and_record [OF ne, of example_env empty_world]
  have "fs empty_world = (\<lambda>p. None)" by (simp add: empty_world_def)
  with c7 obtain code w' where m: "main ?a example_env empty_world = Inr (code, w')" by blast
  with c7 have "report_directories (trace w') =
      report_directories (trace empty_world) @
      (if validation_denies ?a then [] else [Mkdir (report_dir_path example_env (basename (hd (command ?a))))])"
    and "execution_records (trace w') =
      execution_records (trace empty_world) @
      (if validation_denies ?a then []
       else [WriteFile (report_dir_path example_env (basename (hd (command ?a))) @ [''result.log''])
               (result_content example_env (command ?a) code)])"
    by blast+
  with nd bn have "report_directories (trace w') = [Mkdir (report_dir_path example_env ''echo'')]"
    and "execution_records (trace w') =
          [WriteFile (report_dir_path example_env ''echo'' @ [''result.log''])
             (result_content example_env [''echo'', ''hello''] code)]"
    by (simp_all add: empty_world_def report_directories_def execution_records_def)
  with m ne nd show ?thesis by simp
qed

end
